theory Spec2Isabelle
  imports
    Complex_Main
    "HOL-Library.Sublist"
    "HOL-Library.Multiset"
    "HOL-Library.Product_Lexorder"
begin

section \<open>Strings\<close>

text \<open>
  A JavaScript string is a sequence of UTF-16 code units.  The model uses \<^typ>\<open>string\<close>,
  one \<^typ>\<open>char\<close> per code unit, which covers the code units U+0000 to U+00FF; \<open>length\<close> is
  the \<open>.length\<close> of the source.  The character classes below are the classes of the
  source's regular expressions restricted to that range.
\<close>

definition isSpaceChar :: "char \<Rightarrow> bool" where
  \<comment> \<open>\<open>\s\<close>, and the characters \<open>trim()\<close> removes: TAB, LF, VT, FF, CR, SPACE, NBSP\<close>
  "isSpaceChar c = (of_char c \<in> {9, 10, 11, 12, 13, 32, 160 :: nat})"

definition isLowerAZ :: "char \<Rightarrow> bool" where
  \<comment> \<open>\<open>[a-z]\<close>\<close>
  "isLowerAZ c = (97 \<le> (of_char c :: nat) \<and> (of_char c :: nat) \<le> 122)"

definition isUpperAZ :: "char \<Rightarrow> bool" where
  \<comment> \<open>\<open>[A-Z]\<close>\<close>
  "isUpperAZ c = (65 \<le> (of_char c :: nat) \<and> (of_char c :: nat) \<le> 90)"

definition isDigit :: "char \<Rightarrow> bool" where
  \<comment> \<open>\<open>[0-9]\<close>\<close>
  "isDigit c = (48 \<le> (of_char c :: nat) \<and> (of_char c :: nat) \<le> 57)"

definition isWordChar :: "char \<Rightarrow> bool" where
  \<comment> \<open>\<open>\w\<close>\<close>
  "isWordChar c = (isLowerAZ c \<or> isUpperAZ c \<or> isDigit c \<or> c = CHR ''_'')"

definition toLowerChar :: "char \<Rightarrow> char" where
  \<comment> \<open>\<open>toLowerCase\<close> on one code unit: A to Z, and the Latin-1 capitals U+00C0 to U+00DE
      without the multiplication sign U+00D7\<close>
  "toLowerChar c =
     (let n = (of_char c :: nat)
      in if (65 \<le> n \<and> n \<le> 90) \<or> (192 \<le> n \<and> n \<le> 222 \<and> n \<noteq> 215)
         then char_of (n + 32) else c)"

definition toLowerCase :: "string \<Rightarrow> string" where
  "toLowerCase s = map toLowerChar s"

definition startsWith :: "string \<Rightarrow> string \<Rightarrow> bool" where
  \<comment> \<open>\<open>s.startsWith(t)\<close>\<close>
  "startsWith s t = prefix t s"

definition endsWith :: "string \<Rightarrow> string \<Rightarrow> bool" where
  \<comment> \<open>\<open>s.endsWith(t)\<close>\<close>
  "endsWith s t = suffix t s"

fun includesStr :: "string \<Rightarrow> string \<Rightarrow> bool" where
  \<comment> \<open>\<open>s.includes(t)\<close>: \<open>t\<close> occurs in \<open>s\<close> as a contiguous substring\<close>
  "includesStr [] t = (t = [])"
| "includesStr (c # cs) t = (prefix t (c # cs) \<or> includesStr cs t)"

definition trim :: "string \<Rightarrow> string" where
  \<comment> \<open>\<open>s.trim()\<close>\<close>
  "trim s = rev (dropWhile isSpaceChar (rev (dropWhile isSpaceChar s)))"

fun splitAcc :: "(char \<Rightarrow> bool) \<Rightarrow> string \<Rightarrow> string \<Rightarrow> string list" where
  "splitAcc P acc [] = [rev acc]"
| "splitAcc P acc (c # cs) =
     (if P c then rev acc # splitAcc P [] cs else splitAcc P (c # acc) cs)"

definition splitChars :: "(char \<Rightarrow> bool) \<Rightarrow> string \<Rightarrow> string list" where
  \<comment> \<open>\<open>s.split(/[...]/)\<close> for a class of single characters: every separator character
      ends a piece, so adjacent separators give empty pieces\<close>
  "splitChars P s = splitAcc P [] s"

function splitRunsAcc :: "(char \<Rightarrow> bool) \<Rightarrow> string \<Rightarrow> string \<Rightarrow> string list" where
  "splitRunsAcc P acc [] = [rev acc]"
| "splitRunsAcc P acc (c # cs) =
     (if P c then rev acc # splitRunsAcc P [] (dropWhile P cs)
      else splitRunsAcc P (c # acc) cs)"
  by pat_completeness auto
termination
  by (relation "measure (\<lambda>(P, acc, s). length s)")
     (auto simp: le_imp_less_Suc length_dropWhile_le)

definition splitRuns :: "(char \<Rightarrow> bool) \<Rightarrow> string \<Rightarrow> string list" where
  \<comment> \<open>\<open>s.split(/[...]+/)\<close>: a maximal run of separator characters is one separator\<close>
  "splitRuns P s = splitRunsAcc P [] s"

function collapseRuns :: "(char \<Rightarrow> bool) \<Rightarrow> string \<Rightarrow> string" where
  \<comment> \<open>\<open>s.replace(/[...]+/g, ' ')\<close>: every maximal run becomes one space\<close>
  "collapseRuns P [] = []"
| "collapseRuns P (c # cs) =
     (if P c then CHR '' '' # collapseRuns P (dropWhile P cs) else c # collapseRuns P cs)"
  by pat_completeness auto
termination
  by (relation "measure (\<lambda>(P, s). length s)")
     (auto simp: le_imp_less_Suc length_dropWhile_le)

section \<open>The structural scorer (brain-scorer.ts)\<close>

subsection \<open>normalizeSeparators\<close>

definition isSepChar :: "char \<Rightarrow> bool" where
  \<comment> \<open>\<open>[-_\s]\<close>\<close>
  "isSepChar c = (c = CHR ''-'' \<or> c = CHR ''_'' \<or> isSpaceChar c)"

fun camelSpaces :: "string \<Rightarrow> string" where
  \<comment> \<open>\<open>text.replace(/([a-z])([A-Z])/g, '$1 $2')\<close>: the scan resumes after the two
      characters of a match\<close>
  "camelSpaces (a # b # cs) =
     (if isLowerAZ a \<and> isUpperAZ b then a # CHR '' '' # b # camelSpaces cs
      else a # camelSpaces (b # cs))"
| "camelSpaces cs = cs"

definition normalizeSeparators :: "string \<Rightarrow> string" where
  "normalizeSeparators text = collapseRuns isSepChar (camelSpaces text)"

subsection \<open>The index\<close>

record FileEntry =
  original :: string
  lower :: string
  normalized :: string
  fileName :: string
  fileNameLower :: string
  fileNameNormalized :: string
  parentDirLower :: string
  parentDirNormalized :: string
  pathParts :: "string list"
  ext :: string
  depth :: nat

definition isPathSep :: "char \<Rightarrow> bool" where
  \<comment> \<open>\<open>[/\\]\<close>\<close>
  "isPathSep c = (c = CHR ''/'' \<or> c = CHR 0x5C)"

definition isDot :: "char \<Rightarrow> bool" where
  "isDot c = (c = CHR ''.'')"

definition indexEntry :: "string \<Rightarrow> FileEntry" where
  \<comment> \<open>the body of the \<open>map\<close> in \<open>buildIndex\<close>; \<open>split\<close> never returns an empty array,
      so \<open>parts[parts.length - 1]\<close> is the last piece\<close>
  "indexEntry p =
     (let parts = splitChars isPathSep p;
          fileName = last parts;
          parentDir = (if length parts > 1 then parts ! (length parts - 2) else []);
          lower = toLowerCase p
      in \<lparr> original = p,
           lower = lower,
           normalized = normalizeSeparators lower,
           fileName = fileName,
           fileNameLower = toLowerCase fileName,
           fileNameNormalized = normalizeSeparators (toLowerCase fileName),
           parentDirLower = toLowerCase parentDir,
           parentDirNormalized = normalizeSeparators (toLowerCase parentDir),
           pathParts = map toLowerCase parts,
           ext = (if CHR ''.'' \<in> set fileName
                  then ''.'' @ last (splitChars isDot fileName) else []),
           depth = length parts \<rparr>)"

definition buildIndex :: "string list \<Rightarrow> FileEntry list" where
  "buildIndex filePaths = map indexEntry filePaths"

subsection \<open>Constant tables\<close>

definition EXTENSION_WEIGHTS :: "(string \<times> int) list" where
  "EXTENSION_WEIGHTS =
     [(''.ts'', 20), (''.tsx'', 20), (''.js'', 15), (''.jsx'', 15),
      (''.rs'', 20), (''.go'', 20), (''.py'', 15),
      (''.prisma'', 15), (''.graphql'', 10),
      (''.css'', 5), (''.json'', 5), (''.md'', 2)]"

definition testCI :: "string \<Rightarrow> string \<Rightarrow> bool" where
  \<comment> \<open>\<open>/lit/i.test(s)\<close> for a literal \<open>lit\<close> of lower-case ASCII letters and punctuation:
      under the \<open>i\<close> flag only the two ASCII cases of a letter match it\<close>
  "testCI lit s = includesStr (toLowerCase s) lit"

definition DEFINITION_PATTERNS :: "(string \<Rightarrow> bool) list" where
  "DEFINITION_PATTERNS =
     [testCI ''.model.'', testCI ''.schema.'', testCI ''.entity.'', testCI ''.type.'',
      testCI ''.interface.'', testCI ''/models/'', testCI ''/schemas/'', testCI ''/entities/'']"

definition IMPLEMENTATION_PATTERNS :: "(string \<Rightarrow> bool) list" where
  "IMPLEMENTATION_PATTERNS =
     [testCI ''.service.'', testCI ''.controller.'', testCI ''.handler.'', testCI ''.manager.'',
      testCI ''/services/'', testCI ''/controllers/'']"

definition TEST_PATTERNS :: "(string \<Rightarrow> bool) list" where
  \<comment> \<open>\<open>/\/tests?\//i\<close> is \<open>/test/\<close> or \<open>/tests/\<close>\<close>
  "TEST_PATTERNS =
     [testCI ''.test.'', testCI ''.spec.'', testCI ''.e2e.'',
      (\<lambda>s. testCI ''/test/'' s \<or> testCI ''/tests/'' s), testCI ''__tests__'']"

definition somePattern :: "(string \<Rightarrow> bool) list \<Rightarrow> string \<Rightarrow> bool" where
  \<comment> \<open>\<open>PATTERNS.some(pattern => pattern.test(s))\<close>\<close>
  "somePattern ps s = list_ex (\<lambda>p. p s) ps"

subsection \<open>The extension regular expression\<close>

definition extensionAlternatives :: "string list" where
  \<comment> \<open>the constructor: the keys without their dot, sorted (stably) by length descending\<close>
  "extensionAlternatives =
     sort_key (\<lambda>a. - int (length a)) (map (\<lambda>e. drop 1 (fst e)) EXTENSION_WEIGHTS)"

definition wordBoundaryAfter :: "string \<Rightarrow> bool" where
  \<comment> \<open>\<open>\b\<close> after a matched letter: the input ends or a non-word character follows\<close>
  "wordBoundaryAfter rest = (case rest of [] \<Rightarrow> True | c # _ \<Rightarrow> \<not> isWordChar c)"

definition matchAlternative :: "string \<Rightarrow> string \<Rightarrow> bool" where
  \<comment> \<open>the alternative \<open>alt\<close> (lower-case ASCII) matches at the head of \<open>s\<close>, ignoring case,
      and \<open>\b\<close> holds after it\<close>
  "matchAlternative s alt =
     (length alt \<le> length s \<and> toLowerCase (take (length alt) s) = alt
      \<and> wordBoundaryAfter (drop (length alt) s))"

fun extensionMatch :: "string \<Rightarrow> string option" where
  \<comment> \<open>\<open>originalQuery.match(this.extensionRegex)\<close>: group 1 of the leftmost match of
      \<open>/\.(graphql|prisma|...|md)\b/i\<close>, \<open>None\<close> for \<open>null\<close>\<close>
  "extensionMatch [] = None"
| "extensionMatch (c # cs) =
     (if c = CHR ''.''
      then (case find (matchAlternative cs) extensionAlternatives of
              Some alt \<Rightarrow> Some (take (length alt) cs)
            | None \<Rightarrow> extensionMatch cs)
      else extensionMatch cs)"

definition stripExtension :: "string \<Rightarrow> string" where
  \<comment> \<open>\<open>s.replace(/\.[^.]+$/, '')\<close>: the last dot and what follows it are removed when
      at least one character follows that dot\<close>
  "stripExtension s =
     (let tail = takeWhile (\<lambda>c. c \<noteq> CHR ''.'') (rev s)
      in if tail \<noteq> [] \<and> length tail < length s
         then take (length s - length tail - 1) s else s)"

subsection \<open>scoreEntry\<close>

text \<open>
  \<open>scoreEntry\<close> adds to one mutable \<open>score\<close>, with three early returns of a constant and one
  of 0.  The model has one function for each block of the source, in the source's order;
  each returns what its block adds to \<open>score\<close>.
\<close>

definition directoryBoost :: "FileEntry \<Rightarrow> string list \<Rightarrow> string \<Rightarrow> int" where
  \<comment> \<open>block A0\<close>
  "directoryBoost entry terms originalQuery =
     (let isSingleTermQuery =
            (\<not> includesStr originalQuery '' '' \<and> originalQuery = toLowerCase originalQuery)
      in if length terms = 1 \<and> isSingleTermQuery \<and> length (terms ! 0) \<le> 4
            \<and> list_ex (\<lambda>part. part = terms ! 0) (pathParts entry)
         then 8000 else 0)"

fun softAnd :: "FileEntry \<Rightarrow> string list \<Rightarrow> int" where
  \<comment> \<open>block D, the intersection check: the sum of the loop's increments\<close>
  "softAnd entry [] = 0"
| "softAnd entry (t # ts) =
     (if includesStr (normalized entry) t then 10 else - 50) + softAnd entry ts"

fun findPartMatch :: "string \<Rightarrow> int \<Rightarrow> int \<Rightarrow> string list \<Rightarrow> int \<Rightarrow> int \<times> bool" where
  \<comment> \<open>the inner \<open>for (idx ...)\<close> loop of the path sequence block, from index \<open>idx\<close> on, with
      the current \<open>matchIndex\<close>; the result is \<open>(matchIndex, isExactMatch)\<close>\<close>
  "findPartMatch term lastMatchIndex idx [] matchIndex = (matchIndex, False)"
| "findPartMatch term lastMatchIndex idx (part # rest) matchIndex =
     (if idx \<le> lastMatchIndex then findPartMatch term lastMatchIndex (idx + 1) rest matchIndex
      else if part = term then (idx, True)
      else if matchIndex = - 1 \<and>
              (startsWith part (term @ ''_'') \<or> startsWith part (term @ ''-'')
               \<or> startsWith part (term @ ''.''))
           then findPartMatch term lastMatchIndex (idx + 1) rest idx
      else if matchIndex = - 1 \<and> length term \<ge> 4 \<and> includesStr part term
           then findPartMatch term lastMatchIndex (idx + 1) rest idx
      else findPartMatch term lastMatchIndex (idx + 1) rest matchIndex)"

fun pathSequenceLoop :: "string list \<Rightarrow> string list \<Rightarrow> int \<times> int \<times> int \<Rightarrow> int \<times> int \<times> int" where
  \<comment> \<open>the \<open>for (const term of terms)\<close> loop on the state
      \<open>(pathScore, lastMatchIndex, consecutiveMatches)\<close>\<close>
  "pathSequenceLoop parts [] st = st"
| "pathSequenceLoop parts (term # rest) (pathScore, lastMatchIndex, consecutiveMatches) =
     (case findPartMatch term lastMatchIndex 0 parts (- 1) of
        (matchIndex, isExactMatch) \<Rightarrow>
          if matchIndex > lastMatchIndex
          then pathSequenceLoop parts rest
                 (pathScore + (25 * (consecutiveMatches + 1) + (if isExactMatch then 10 else 0)),
                  matchIndex, consecutiveMatches + 1)
          else pathSequenceLoop parts rest (pathScore, lastMatchIndex, 0))"

fun findIndexAfter :: "string \<Rightarrow> int \<Rightarrow> int \<Rightarrow> string list \<Rightarrow> int" where
  \<comment> \<open>\<open>pathParts.findIndex((part, pidx) => pidx > startIdx && part === term)\<close>, scanning
      from index \<open>pidx\<close>\<close>
  "findIndexAfter term startIdx pidx [] = - 1"
| "findIndexAfter term startIdx pidx (part # rest) =
     (if pidx > startIdx \<and> part = term then pidx
      else findIndexAfter term startIdx (pidx + 1) rest)"

fun allConsecutive :: "string list \<Rightarrow> string list \<Rightarrow> int \<Rightarrow> bool" where
  \<comment> \<open>the gap check: \<open>False\<close> where the source sets \<open>allConsecutive = false\<close> and breaks\<close>
  "allConsecutive parts [] startIdx = True"
| "allConsecutive parts (term # rest) startIdx =
     (let idx = findIndexAfter term startIdx 0 parts
      in if idx = - 1 \<or> (startIdx \<noteq> - 1 \<and> idx \<noteq> startIdx + 1) then False
         else allConsecutive parts rest idx)"

definition pathSequence :: "FileEntry \<Rightarrow> string list \<Rightarrow> string \<Rightarrow> int" where
  \<comment> \<open>the path sequence block with its perfect-sequence bonus\<close>
  "pathSequence entry terms originalQuery =
     (if includesStr originalQuery ''/'' \<or> length terms \<ge> 3
      then (case pathSequenceLoop (pathParts entry) terms (0, - 1, 0) of
              (pathScore, lastMatchIndex, consecutiveMatches) \<Rightarrow>
                pathScore +
                (if consecutiveMatches = int (length terms) \<and> length terms \<ge> 3
                    \<and> allConsecutive (pathParts entry) terms (- 1)
                 then 100 else 0))
      else 0)"

definition isWordSep :: "char \<Rightarrow> bool" where
  \<comment> \<open>\<open>[\s_\-\.]\<close>\<close>
  "isWordSep c = (isSpaceChar c \<or> c = CHR ''_'' \<or> c = CHR ''-'' \<or> c = CHR ''.'')"

definition filenameHasTerm :: "FileEntry \<Rightarrow> string \<Rightarrow> bool" where
  "filenameHasTerm entry term =
     list_ex (\<lambda>word. word = term \<or> startsWith word term)
       (splitRuns isWordSep (fileNameNormalized entry))"

fun structuralLoop :: "FileEntry \<Rightarrow> string list \<Rightarrow> int \<times> nat" where
  \<comment> \<open>block E: what the loop adds to \<open>score\<close>, and \<open>termsInStructure\<close>\<close>
  "structuralLoop entry [] = (0, 0)"
| "structuralLoop entry (term # rest) =
     (case structuralLoop entry rest of
        (sc, n) \<Rightarrow>
          if filenameHasTerm entry term then (30 + sc, n + 1)
          else if parentDirLower entry = term then (60 + sc, n + 1)
          else if includesStr (parentDirNormalized entry) term then (30 + sc, n + 1)
          else (5 + sc, n))"

definition structural :: "FileEntry \<Rightarrow> string list \<Rightarrow> int" where
  "structural entry terms =
     (case structuralLoop entry terms of
        (sc, termsInStructure) \<Rightarrow> sc + (if termsInStructure = length terms then 50 else 0))"

definition removeSpaces :: "string \<Rightarrow> string" where
  \<comment> \<open>\<open>s.replace(/\s/g, '')\<close>\<close>
  "removeSpaces s = filter (\<lambda>c. \<not> isSpaceChar c) s"

definition adjacency :: "FileEntry \<Rightarrow> string \<Rightarrow> int" where
  "adjacency entry normalizedQuery =
     (if includesStr (removeSpaces (normalized entry)) (removeSpaces normalizedQuery)
      then 20 else 0)"

definition extensionWeight :: "FileEntry \<Rightarrow> int" where
  \<comment> \<open>\<open>EXTENSION_WEIGHTS[entry.ext] || 0\<close>\<close>
  "extensionWeight entry =
     (case map_of EXTENSION_WEIGHTS (ext entry) of Some w \<Rightarrow> w | None \<Rightarrow> 0)"

definition definitionBoost :: "FileEntry \<Rightarrow> int" where
  \<comment> \<open>block F\<close>
  "definitionBoost entry =
     (if somePattern DEFINITION_PATTERNS (original entry) then 40
      else if somePattern IMPLEMENTATION_PATTERNS (original entry) then 20 else 0)
     + (if somePattern TEST_PATTERNS (original entry) then - 60 else 0)"

definition accumulated :: "FileEntry \<Rightarrow> string list \<Rightarrow> string \<Rightarrow> int" where
  \<comment> \<open>the value of \<open>score\<close> before the final \<open>Math.max(0, score)\<close>, on the path that
      takes no early return\<close>
  "accumulated entry terms originalQuery =
     directoryBoost entry terms originalQuery
     + softAnd entry terms + 50
     + pathSequence entry terms originalQuery
     + structural entry terms
     + adjacency entry (toLowerCase (normalizeSeparators originalQuery))
     + extensionWeight entry
     + definitionBoost entry"

definition extensionDisqualified :: "FileEntry \<Rightarrow> string \<Rightarrow> bool" where
  \<comment> \<open>block C: the query names a known extension and the entry has another one\<close>
  "extensionDisqualified entry originalQuery =
     (case extensionMatch originalQuery of
        None \<Rightarrow> False
      | Some queryExt \<Rightarrow> ext entry \<noteq> ''.'' @ toLowerCase queryExt)"

definition scoreEntry :: "FileEntry \<Rightarrow> string list \<Rightarrow> string \<Rightarrow> string \<Rightarrow> int" where
  "scoreEntry entry terms fullQueryLower originalQuery =
     (let normalizedQuery = toLowerCase (normalizeSeparators originalQuery)
      in if fileNameLower entry = fullQueryLower then 10000
         else if fileNameNormalized entry = normalizedQuery then 9000
         else if toLowerCase (stripExtension (fileName entry)) = stripExtension fullQueryLower
              then 5000
         else if extensionDisqualified entry originalQuery then 0
         else max 0 (accumulated entry terms originalQuery))"

subsection \<open>search\<close>

datatype matchType = Exact | Filename | Fuzzy

text \<open>The field \<open>file\<close> of the source is \<open>resultFile\<close> here.\<close>

record SearchResult =
  resultFile :: string
  score :: int
  matchType :: matchType

definition queryTerms :: "string \<Rightarrow> string list" where
  \<comment> \<open>\<open>queryLower.split(/\s+/).filter(Boolean)\<close>\<close>
  "queryTerms queryLower = filter (\<lambda>t. t \<noteq> []) (splitRuns isSpaceChar queryLower)"

definition scoreQuery :: "FileEntry \<Rightarrow> string \<Rightarrow> int" where
  \<comment> \<open>the score \<open>search\<close> gives one entry: \<open>query\<close> is trimmed, normalised, then lowered\<close>
  "scoreQuery entry query =
     (let queryTrimmed = trim query;
          queryLower = toLowerCase (normalizeSeparators queryTrimmed)
      in scoreEntry entry (queryTerms queryLower) queryLower queryTrimmed)"

fun collectResults :: "FileEntry list \<Rightarrow> string \<Rightarrow> SearchResult list" where
  \<comment> \<open>the \<open>for\<close> loop of \<open>search\<close>: the entries of positive score, in index order\<close>
  "collectResults [] query = []"
| "collectResults (entry # rest) query =
     (let sc = scoreQuery entry query
      in if sc > 0
         then \<lparr> resultFile = original entry, score = sc,
                matchType = (if sc > 150 then Exact else Fuzzy) \<rparr> # collectResults rest query
         else collectResults rest query)"

definition compareResults :: "SearchResult \<Rightarrow> SearchResult \<Rightarrow> int" where
  \<comment> \<open>the comparator given to \<open>sort\<close>\<close>
  "compareResults a b =
     (if score b \<noteq> score a then score b - score a
      else int (length (resultFile a)) - int (length (resultFile b)))"

fun insertResult :: "SearchResult \<Rightarrow> SearchResult list \<Rightarrow> SearchResult list" where
  "insertResult x [] = [x]"
| "insertResult x (y # ys) =
     (if compareResults x y \<le> 0 then x # y # ys else y # insertResult x ys)"

definition sortResults :: "SearchResult list \<Rightarrow> SearchResult list" where
  \<comment> \<open>\<open>Array.prototype.sort\<close> is stable (ECMAScript 2019): elements that compare equal
      keep their order.  Stable insertion sort computes that unique result.\<close>
  "sortResults xs = foldr insertResult xs []"

definition search :: "FileEntry list \<Rightarrow> string \<Rightarrow> nat \<Rightarrow> SearchResult list" where
  \<comment> \<open>\<open>ManticEngine.search\<close> on the engine's index; \<open>limit\<close> is a count, and
      \<open>slice(0, limit)\<close> keeps the first \<open>limit\<close> elements\<close>
  "search index query limit =
     (if query = [] then []
      else if queryTerms (toLowerCase (normalizeSeparators (trim query))) = [] then []
      else take limit (sortResults (collectResults index query)))"

section \<open>The search worker (search.worker.ts)\<close>

text \<open>
  A value thrown or emitted as an error.  In the model \<open>search\<close> is a total function; what
  can make \<open>engine.search\<close> throw in a worker (a \<open>RangeError\<close> of the runtime, for one) is
  outside it, so a worker's engine is a function that returns the results or the thrown
  value.
\<close>

datatype exn = Exn string

type_synonym engineSearch = "string \<Rightarrow> nat \<Rightarrow> exn + SearchResult list"

definition engineOf :: "string list \<Rightarrow> engineSearch" where
  \<comment> \<open>the engine a worker builds at start-up from \<open>workerData.files\<close>\<close>
  "engineOf filesChunk query limit = Inr (search (buildIndex filesChunk) query limit)"

definition onMessage :: "engineSearch \<Rightarrow> string \<Rightarrow> nat \<Rightarrow> SearchResult list" where
  \<comment> \<open>the \<open>'message'\<close> handler: what the worker posts back; the \<open>catch\<close> branch posts \<open>[]\<close>\<close>
  "onMessage engine query limit =
     (case engine query limit of Inr results \<Rightarrow> results | Inl error \<Rightarrow> [])"

section \<open>The parallel orchestrator (parallel-mantic.ts)\<close>

text \<open>
  A worker thread as the orchestrator sees it during one \<open>search\<close>: it runs the message
  handler and answers with a \<open>'message'\<close> event, or it emits an \<open>'error'\<close> event (an
  exception that nothing in the thread caught).
\<close>

datatype worker = Running engineSearch | Failing exn

definition cpuCount :: "nat \<Rightarrow> nat" where
  \<comment> \<open>\<open>os.cpus().length || 4\<close>, for the number of CPUs the system reports\<close>
  "cpuCount cpus = (if cpus = 0 then 4 else cpus)"

definition workerCount :: "nat \<Rightarrow> nat" where
  "workerCount cpus = max 2 (cpuCount cpus - 1)"

definition chunkSize :: "nat \<Rightarrow> nat \<Rightarrow> nat" where
  \<comment> \<open>\<open>Math.ceil(allFiles.length / workerCount)\<close>; the quotient of two array lengths
      is far from the precision at which the floating-point division could round to the
      integer below\<close>
  "chunkSize len wc = (len + wc - 1) div wc"

definition slice :: "nat \<Rightarrow> nat \<Rightarrow> 'a list \<Rightarrow> 'a list" where
  \<comment> \<open>\<open>xs.slice(start, end)\<close> for \<open>0 \<le> start \<le> end\<close>\<close>
  "slice start end xs = take (end - start) (drop start xs)"

definition chunks :: "nat \<Rightarrow> string list \<Rightarrow> string list list" where
  \<comment> \<open>the chunk of every \<open>i < workerCount\<close>, the empty ones skipped (\<open>continue\<close>)\<close>
  "chunks cpus allFiles =
     (let wc = workerCount cpus; cs = chunkSize (length allFiles) wc
      in filter (\<lambda>chunk. chunk \<noteq> [])
           (map (\<lambda>i. slice (i * cs) (i * cs + cs) allFiles) [0..<wc]))"

definition initWorkers :: "nat \<Rightarrow> string list \<Rightarrow> worker list" where
  \<comment> \<open>one worker for each chunk, in chunk order; each builds its engine from its chunk\<close>
  "initWorkers cpus allFiles = map (\<lambda>chunk. Running (engineOf chunk)) (chunks cpus allFiles)"

definition workerPromise :: "worker \<Rightarrow> string \<Rightarrow> nat \<Rightarrow> exn + SearchResult list" where
  \<comment> \<open>the promise made for one worker: resolved (\<open>Inr\<close>) by its \<open>'message'\<close> event,
      rejected (\<open>Inl\<close>) by its \<open>'error'\<close> event\<close>
  "workerPromise w query limit =
     (case w of Running engine \<Rightarrow> Inr (onMessage engine query limit) | Failing e \<Rightarrow> Inl e)"

fun promiseAll :: "('e + 'a) list \<Rightarrow> 'e + 'a list" where
  \<comment> \<open>\<open>Promise.all\<close>: rejected as soon as one promise is, else the values in order\<close>
  "promiseAll [] = Inr []"
| "promiseAll (Inl e # ps) = Inl e"
| "promiseAll (Inr v # ps) = (case promiseAll ps of Inl e \<Rightarrow> Inl e | Inr vs \<Rightarrow> Inr (v # vs))"

definition parallelSearch :: "worker list \<Rightarrow> string \<Rightarrow> nat \<Rightarrow> exn + SearchResult list" where
  \<comment> \<open>\<open>ParallelMantic.search\<close> on the workers of the instance: \<open>Inr\<close> when the returned
      promise resolves, \<open>Inl\<close> when it rejects\<close>
  "parallelSearch workers query limit =
     (if query = [] then Inr []
      else case promiseAll (map (\<lambda>w. workerPromise w query limit) workers) of
             Inl e \<Rightarrow> Inl e
           | Inr resultsArrays \<Rightarrow> Inr (take limit (sortResults (concat resultsArrays))))"

section \<open>Regular expressions with groups\<close>

text \<open>
  The import patterns of the dependency graph builder have capturing groups and are matched
  by backtracking.  A matcher maps a state, the groups captured so far and the rest of the
  input, to the states after every way of matching, in the order in which a backtracking
  matcher tries them; the first one is the match.  Quantifiers occur in these patterns on
  character classes only, and are greedy.
\<close>

type_synonym captures = "(nat \<times> string) list"

type_synonym mstate = "captures \<times> string"

type_synonym matcher = "mstate \<Rightarrow> mstate list"

definition mLit :: "string \<Rightarrow> matcher" where
  \<comment> \<open>a literal\<close>
  "mLit lit = (\<lambda>(caps, s). if prefix lit s then [(caps, drop (length lit) s)] else [])"

definition mCls :: "(char \<Rightarrow> bool) \<Rightarrow> matcher" where
  \<comment> \<open>one character of a class\<close>
  "mCls P = (\<lambda>(caps, s). case s of [] \<Rightarrow> [] | c # cs \<Rightarrow> if P c then [(caps, cs)] else [])"

definition mPlus :: "(char \<Rightarrow> bool) \<Rightarrow> matcher" where
  \<comment> \<open>\<open>[...]+\<close>: the longest run first, then shorter ones, down to one character\<close>
  "mPlus P = (\<lambda>(caps, s). map (\<lambda>n. (caps, drop n s)) (rev [1..<Suc (length (takeWhile P s))]))"

definition mStar :: "(char \<Rightarrow> bool) \<Rightarrow> matcher" where
  \<comment> \<open>\<open>[...]*\<close>\<close>
  "mStar P = (\<lambda>(caps, s). map (\<lambda>n. (caps, drop n s)) (rev [0..<Suc (length (takeWhile P s))]))"

definition mSeq :: "matcher \<Rightarrow> matcher \<Rightarrow> matcher" where
  "mSeq m1 m2 = (\<lambda>st. concat (map m2 (m1 st)))"

definition mAlt :: "matcher \<Rightarrow> matcher \<Rightarrow> matcher" where
  \<comment> \<open>\<open>a|b\<close>: the left alternative first\<close>
  "mAlt m1 m2 = (\<lambda>st. m1 st @ m2 st)"

definition mGroup :: "nat \<Rightarrow> matcher \<Rightarrow> matcher" where
  \<comment> \<open>capturing group number \<open>i\<close>\<close>
  "mGroup i m =
     (\<lambda>(caps, s). map (\<lambda>(caps', s'). ((i, take (length s - length s') s) # caps', s'))
                      (m (caps, s)))"

definition mEnd :: matcher where
  \<comment> \<open>\<open>$\<close>\<close>
  "mEnd = (\<lambda>(caps, s). if s = [] then [(caps, s)] else [])"

definition mSeqs :: "matcher list \<Rightarrow> matcher" where
  "mSeqs ms = foldr mSeq ms (\<lambda>st. [st])"

definition matchHere :: "matcher \<Rightarrow> string \<Rightarrow> captures option" where
  \<comment> \<open>a match that starts at the head of the input (a pattern anchored by \<open>^\<close>)\<close>
  "matchHere m s = (case m ([], s) of [] \<Rightarrow> None | (caps, rest) # _ \<Rightarrow> Some caps)"

fun exec :: "matcher \<Rightarrow> string \<Rightarrow> captures option" where
  \<comment> \<open>\<open>regex.exec(s)\<close> without the \<open>g\<close> flag: the match at the leftmost position that has
      one, \<open>None\<close> for \<open>null\<close>\<close>
  "exec m [] = matchHere m []"
| "exec m (c # cs) = (case matchHere m (c # cs) of Some caps \<Rightarrow> Some caps | None \<Rightarrow> exec m cs)"

definition groupText :: "captures \<Rightarrow> nat \<Rightarrow> string" where
  \<comment> \<open>\<open>match[i]\<close> of a group that took part in the match\<close>
  "groupText caps i = (case map_of caps i of Some g \<Rightarrow> g | None \<Rightarrow> [])"

fun beforeMatch :: "matcher \<Rightarrow> string \<Rightarrow> string" where
  \<comment> \<open>\<open>s.split(regex)[0]\<close> for a pattern that matches no empty string: what stands
      before the leftmost match, all of \<open>s\<close> when there is none\<close>
  "beforeMatch m [] = []"
| "beforeMatch m (c # cs) = (if m ([], c # cs) \<noteq> [] then [] else c # beforeMatch m cs)"

section \<open>The dependency graph builder (dependency-graph.ts)\<close>

record ImportStatement =
  source :: string
  importedNames :: "string list"
  isDefault :: bool
  isDynamic :: bool
  line :: nat

subsection \<open>The import patterns\<close>

definition isQuote :: "char \<Rightarrow> bool" where
  \<comment> \<open>\<open>['"]\<close>\<close>
  "isQuote c = (c = CHR 0x27 \<or> c = CHR 0x22)"

definition notQuote :: "char \<Rightarrow> bool" where
  \<comment> \<open>\<open>[^'"]\<close>\<close>
  "notQuote c = (\<not> isQuote c)"

definition notCloseBrace :: "char \<Rightarrow> bool" where
  \<comment> \<open>\<open>[^}]\<close>\<close>
  "notCloseBrace c = (c \<noteq> CHR ''}'')"

definition isWordOrDot :: "char \<Rightarrow> bool" where
  \<comment> \<open>\<open>[\w\.]\<close>\<close>
  "isWordOrDot c = (isWordChar c \<or> c = CHR ''.'')"

definition notLineTerminator :: "char \<Rightarrow> bool" where
  \<comment> \<open>\<open>.\<close>: any character but LF and CR\<close>
  "notLineTerminator c = (c \<noteq> CHR 0x0A \<and> c \<noteq> CHR 0x0D)"

definition quotedSource :: "nat \<Rightarrow> matcher" where
  \<comment> \<open>\<open>['"]([^'"]+)['"]\<close>, the group having number \<open>i\<close>\<close>
  "quotedSource i = mSeqs [mCls isQuote, mGroup i (mPlus notQuote), mCls isQuote]"

definition defaultImportRx :: matcher where
  \<comment> \<open>\<open>/import\s+(\w+)\s+from\s+['"]([^'"]+)['"]/\<close>\<close>
  "defaultImportRx =
     mSeqs [mLit ''import'', mPlus isSpaceChar, mGroup 1 (mPlus isWordChar), mPlus isSpaceChar,
            mLit ''from'', mPlus isSpaceChar, quotedSource 2]"

definition namedImportRx :: matcher where
  \<comment> \<open>\<open>/import\s+\{\s*([^}]+)\s*\}\s+from\s+['"]([^'"]+)['"]/\<close>\<close>
  "namedImportRx =
     mSeqs [mLit ''import'', mPlus isSpaceChar, mLit ''{'', mStar isSpaceChar,
            mGroup 1 (mPlus notCloseBrace), mStar isSpaceChar, mLit ''}'', mPlus isSpaceChar,
            mLit ''from'', mPlus isSpaceChar, quotedSource 2]"

definition starImportRx :: matcher where
  \<comment> \<open>\<open>/import\s+\*\s+as\s+(\w+)\s+from\s+['"]([^'"]+)['"]/\<close>\<close>
  "starImportRx =
     mSeqs [mLit ''import'', mPlus isSpaceChar, mLit ''*'', mPlus isSpaceChar, mLit ''as'',
            mPlus isSpaceChar, mGroup 1 (mPlus isWordChar), mPlus isSpaceChar,
            mLit ''from'', mPlus isSpaceChar, quotedSource 2]"

definition dynamicImportRx :: matcher where
  \<comment> \<open>\<open>/import\(['"]([^'"]+)['"]\)/\<close>\<close>
  "dynamicImportRx = mSeqs [mLit ''import('', quotedSource 1, mLit '')'']"

definition requireRx :: matcher where
  \<comment> \<open>\<open>/(?:const|let|var)\s+(?:\{([^}]+)\}|(\w+))\s*=\s*require\(['"]([^'"]+)['"]\)/\<close>\<close>
  "requireRx =
     mSeqs [mAlt (mLit ''const'') (mAlt (mLit ''let'') (mLit ''var'')), mPlus isSpaceChar,
            mAlt (mSeqs [mLit ''{'', mGroup 1 (mPlus notCloseBrace), mLit ''}''])
                 (mGroup 2 (mPlus isWordChar)),
            mStar isSpaceChar, mLit ''='', mStar isSpaceChar,
            mLit ''require('', quotedSource 3, mLit '')'']"

definition pythonFromRx :: matcher where
  \<comment> \<open>\<open>/^from\s+([\w\.]+)\s+import\s+(.+)$/\<close>, without the \<open>^\<close>\<close>
  "pythonFromRx =
     mSeqs [mLit ''from'', mPlus isSpaceChar, mGroup 1 (mPlus isWordOrDot), mPlus isSpaceChar,
            mLit ''import'', mPlus isSpaceChar, mGroup 2 (mPlus notLineTerminator), mEnd]"

definition pythonImportRx :: matcher where
  \<comment> \<open>\<open>/^import\s+([\w\.]+)/\<close>, without the \<open>^\<close>\<close>
  "pythonImportRx = mSeqs [mLit ''import'', mPlus isSpaceChar, mGroup 1 (mPlus isWordOrDot)]"

definition asRx :: matcher where
  \<comment> \<open>\<open>/\s+as\s+/\<close>\<close>
  "asRx = mSeqs [mPlus isSpaceChar, mLit ''as'', mPlus isSpaceChar]"

definition isComma :: "char \<Rightarrow> bool" where
  "isComma c = (c = CHR '','')"

definition namesBeforeAs :: "string \<Rightarrow> string list" where
  \<comment> \<open>\<open>text.split(',').map(n => n.trim().split(/\s+as\s+/)[0])\<close>\<close>
  "namesBeforeAs text = map (\<lambda>n. beforeMatch asRx (trim n)) (splitChars isComma text)"

definition namesTrimmed :: "string \<Rightarrow> string list" where
  \<comment> \<open>\<open>text.split(',').map(n => n.trim())\<close>\<close>
  "namesTrimmed text = map trim (splitChars isComma text)"

subsection \<open>extractImports\<close>

text \<open>
  One function for each \<open>if (match) { imports.push(...); continue; }\<close> block of the loop
  body, in the source's order: it gives the statement the block pushes for the line of
  index \<open>lineNum\<close>, or \<open>None\<close> when the block does not match.
\<close>

definition defaultImport :: "string \<Rightarrow> nat \<Rightarrow> ImportStatement option" where
  "defaultImport txt lineNum =
     (case exec defaultImportRx txt of
        None \<Rightarrow> None
      | Some m \<Rightarrow> Some \<lparr> source = groupText m 2, importedNames = [groupText m 1],
                         isDefault = True, isDynamic = False, line = lineNum + 1 \<rparr>)"

definition namedImport :: "string \<Rightarrow> nat \<Rightarrow> ImportStatement option" where
  "namedImport txt lineNum =
     (case exec namedImportRx txt of
        None \<Rightarrow> None
      | Some m \<Rightarrow> Some \<lparr> source = groupText m 2, importedNames = namesBeforeAs (groupText m 1),
                         isDefault = False, isDynamic = False, line = lineNum + 1 \<rparr>)"

definition starImport :: "string \<Rightarrow> nat \<Rightarrow> ImportStatement option" where
  \<comment> \<open>the pattern is tried only on a line that starts, trimmed, with \<open>import * as\<close>\<close>
  "starImport txt lineNum =
     (if startsWith (trim txt) ''import * as''
      then (case exec starImportRx txt of
              None \<Rightarrow> None
            | Some m \<Rightarrow> Some \<lparr> source = groupText m 2, importedNames = [groupText m 1],
                               isDefault = False, isDynamic = False, line = lineNum + 1 \<rparr>)
      else None)"

definition dynamicImport :: "string \<Rightarrow> nat \<Rightarrow> ImportStatement option" where
  "dynamicImport txt lineNum =
     (case exec dynamicImportRx txt of
        None \<Rightarrow> None
      | Some m \<Rightarrow> Some \<lparr> source = groupText m 1, importedNames = [],
                         isDefault = False, isDynamic = True, line = lineNum + 1 \<rparr>)"

definition requireImport :: "string \<Rightarrow> nat \<Rightarrow> ImportStatement option" where
  \<comment> \<open>group 1, when it took part in the match, is not empty, hence truthy\<close>
  "requireImport txt lineNum =
     (case exec requireRx txt of
        None \<Rightarrow> None
      | Some m \<Rightarrow>
          Some \<lparr> source = groupText m 3,
                 importedNames = (case map_of m 1 of Some g \<Rightarrow> namesTrimmed g
                                  | None \<Rightarrow> [groupText m 2]),
                 isDefault = (map_of m 1 = None), isDynamic = False, line = lineNum + 1 \<rparr>)"

definition pythonFromImport :: "string \<Rightarrow> nat \<Rightarrow> ImportStatement option" where
  "pythonFromImport txt lineNum =
     (case matchHere pythonFromRx (trim txt) of
        None \<Rightarrow> None
      | Some m \<Rightarrow> Some \<lparr> source = groupText m 1, importedNames = namesBeforeAs (groupText m 2),
                         isDefault = False, isDynamic = False, line = lineNum + 1 \<rparr>)"

definition pythonImport :: "string \<Rightarrow> nat \<Rightarrow> ImportStatement option" where
  "pythonImport txt lineNum =
     (case matchHere pythonImportRx (trim txt) of
        None \<Rightarrow> None
      | Some m \<Rightarrow> Some \<lparr> source = groupText m 1, importedNames = [],
                         isDefault = True, isDynamic = False, line = lineNum + 1 \<rparr>)"

definition isCommentLine :: "string \<Rightarrow> bool" where
  "isCommentLine txt =
     (startsWith (trim txt) ''//'' \<or> startsWith (trim txt) ''*'' \<or> startsWith (trim txt) ''/*'')"

definition scanLine :: "string \<Rightarrow> string \<Rightarrow> nat \<Rightarrow> ImportStatement option" where
  \<comment> \<open>the body of the \<open>for\<close> loop: what it pushes for one line, if anything\<close>
  "scanLine filepath txt lineNum =
     (if isCommentLine txt then None
      else case defaultImport txt lineNum of Some i \<Rightarrow> Some i | None \<Rightarrow>
           (case namedImport txt lineNum of Some i \<Rightarrow> Some i | None \<Rightarrow>
           (case starImport txt lineNum of Some i \<Rightarrow> Some i | None \<Rightarrow>
           (case dynamicImport txt lineNum of Some i \<Rightarrow> Some i | None \<Rightarrow>
           (case requireImport txt lineNum of Some i \<Rightarrow> Some i | None \<Rightarrow>
           (if endsWith filepath ''.py''
            then (case pythonFromImport txt lineNum of Some i \<Rightarrow> Some i | None \<Rightarrow>
                    pythonImport txt lineNum)
            else None))))))"

fun scanLines :: "string \<Rightarrow> nat \<Rightarrow> string list \<Rightarrow> ImportStatement list" where
  \<comment> \<open>the \<open>for\<close> loop from \<open>lineNum\<close> on\<close>
  "scanLines filepath lineNum [] = []"
| "scanLines filepath lineNum (txt # rest) =
     (case scanLine filepath txt lineNum of
        Some i \<Rightarrow> i # scanLines filepath (lineNum + 1) rest
      | None \<Rightarrow> scanLines filepath (lineNum + 1) rest)"

fun splitLinesAcc :: "string \<Rightarrow> string \<Rightarrow> string list" where
  "splitLinesAcc acc [] = [rev acc]"
| "splitLinesAcc acc (c # cs) =
     (if c = CHR 0x0D \<and> (case cs of [] \<Rightarrow> False | d # _ \<Rightarrow> d = CHR 0x0A)
      then rev acc # splitLinesAcc [] (tl cs)
      else if c = CHR 0x0A then rev acc # splitLinesAcc [] cs
      else splitLinesAcc (c # acc) cs)"

definition splitLines :: "string \<Rightarrow> string list" where
  \<comment> \<open>\<open>content.split(/\r?\n/)\<close>\<close>
  "splitLines content = splitLinesAcc [] content"

text \<open>
  The file system is a function from the path of a file, relative to \<open>cwd\<close>, to its content,
  \<open>None\<close> where \<open>fs.readFile\<close> fails; it stands for reading \<open>path.join(cwd, filepath)\<close>.
\<close>

type_synonym fileSystem = "string \<Rightarrow> string option"

definition extractImports :: "fileSystem \<Rightarrow> string \<Rightarrow> ImportStatement list" where
  \<comment> \<open>the \<open>catch\<close> branch returns \<open>[]\<close>\<close>
  "extractImports readFile filepath =
     (case readFile filepath of
        None \<Rightarrow> []
      | Some content \<Rightarrow> scanLines filepath 0 (splitLines content))"

subsection \<open>resolveImportPath\<close>

text \<open>
  \<open>path.dirname\<close>, \<open>path.join\<close> and \<open>path.extname\<close> belong to the runtime's \<open>path\<close> module,
  not to the repository: \<open>resolveImportPath\<close> takes them as a parameter.
\<close>

record PathModule =
  dirname :: "string \<Rightarrow> string"
  join :: "string \<Rightarrow> string \<Rightarrow> string"
  extname :: "string \<Rightarrow> string"

definition isExternal :: "string \<Rightarrow> bool" where
  \<comment> \<open>the guard of the first \<open>return null\<close>\<close>
  "isExternal importSource =
     (\<not> startsWith importSource ''.'' \<and> \<not> startsWith importSource ''@/'')"

definition probe :: "string list \<Rightarrow> string \<Rightarrow> string list \<Rightarrow> string option" where
  \<comment> \<open>a \<open>for\<close> loop over sfxs: the first \<open>candidatePath + sfx\<close> that is one of
      \<open>allFiles\<close>\<close>
  "probe allFiles candidatePath sfxs =
     (case find (\<lambda>sfx. candidatePath @ sfx \<in> set allFiles) sfxs of
        Some sfx \<Rightarrow> Some (candidatePath @ sfx)
      | None \<Rightarrow> None)"

definition resolveImportPath ::
  "PathModule \<Rightarrow> string \<Rightarrow> string \<Rightarrow> string list \<Rightarrow> string option" where
  \<comment> \<open>\<open>None\<close> for \<open>null\<close>.  \<open>importSource.replace('@/', 'src/')\<close> replaces the first
      occurrence, which is the prefix here; \<open>slice(0, -n)\<close> drops the last \<open>n\<close> characters.
      The parameter \<open>cwd\<close> of the source is not used by it.\<close>
  "resolveImportPath P importSource importerPath allFiles =
     (if isExternal importSource then None
      else
        let resolvedSource =
              (if startsWith importSource ''@/'' then ''src/'' @ drop 2 importSource
               else importSource);
            importerDir = dirname P importerPath;
            joined = join P importerDir resolvedSource;
            currentExt = extname P joined;
            candidatePath =
              (if currentExt \<noteq> [] then take (length joined - length currentExt) joined
               else joined)
        in case probe allFiles candidatePath [''.ts'', ''.tsx'', ''.js'', ''.jsx'', ''.mjs'', '''']
           of Some testPath \<Rightarrow> Some testPath
            | None \<Rightarrow>
                probe allFiles candidatePath
                  [''/index.ts'', ''/index.tsx'', ''/index.js'', ''/index.jsx''])"

subsection \<open>buildDependencyGraph\<close>

text \<open>
  A \<open>Map\<close> is a list of key-value pairs with distinct keys, in insertion order, and a \<open>Set\<close>
  a list of distinct elements, in insertion order.  The field \<open>imports\<close> of a node is
  \<open>nodeImports\<close> here.
\<close>

record FileNode =
  path :: string
  nodeImports :: "ImportStatement list"
  exports :: "string list"
  dependents :: "string list"

fun mapSet :: "'k \<Rightarrow> 'v \<Rightarrow> ('k \<times> 'v) list \<Rightarrow> ('k \<times> 'v) list" where
  \<comment> \<open>\<open>map.set(k, v)\<close>: a present key keeps its place\<close>
  "mapSet k v [] = [(k, v)]"
| "mapSet k v ((k', v') # m) = (if k' = k then (k, v) # m else (k', v') # mapSet k v m)"

definition setAdd :: "'a \<Rightarrow> 'a list \<Rightarrow> 'a list" where
  \<comment> \<open>\<open>set.add(x)\<close>\<close>
  "setAdd x s = (if x \<in> set s then s else s @ [x])"

definition addNode ::
  "fileSystem \<Rightarrow> (string \<Rightarrow> string list) \<Rightarrow> (string \<times> FileNode) list \<Rightarrow> string
   \<Rightarrow> (string \<times> FileNode) list" where
  \<comment> \<open>\<open>nodes.set(filepath, {...})\<close> for one file of a batch; \<open>extractExports\<close> is a
      parameter: the exports of a node have no part in the reverse lookup or the ranks\<close>
  "addNode readFile extractExports nodes filepath =
     mapSet filepath
       \<lparr> path = filepath, nodeImports = extractImports readFile filepath,
         exports = extractExports filepath, dependents = [] \<rparr> nodes"

partial_function (option) batchLoop ::
  "fileSystem \<Rightarrow> (string \<Rightarrow> string list) \<Rightarrow> string list \<Rightarrow> nat \<Rightarrow> nat
   \<Rightarrow> (string \<times> FileNode) list \<Rightarrow> (string \<times> FileNode) list option" where
  \<comment> \<open>\<open>for (let i = ...; i < files.length; i += maxConcurrency)\<close>: \<open>None\<close> when the loop
      does not end.  The reads of a batch run concurrently; \<open>Promise.all\<close> gives their
      results in the order of the batch, and neither extraction rejects.\<close>
  "batchLoop readFile extractExports files maxConcurrency i nodes =
     (if i < length files
      then batchLoop readFile extractExports files maxConcurrency (i + maxConcurrency)
             (foldl (addNode readFile extractExports) nodes
                (slice i (i + maxConcurrency) files))
      else Some nodes)"

declare batchLoop.simps [code]

definition addDependent :: "string \<Rightarrow> string \<Rightarrow> (string \<times> string list) list
   \<Rightarrow> (string \<times> string list) list" where
  \<comment> \<open>\<open>if (!reverseLookup.has(resolved)) reverseLookup.set(resolved, new Set());
      reverseLookup.get(resolved).add(filepath)\<close>\<close>
  "addDependent resolved filepath rl =
     (let rl1 = (if map_of rl resolved = None then mapSet resolved [] rl else rl)
      in case map_of rl1 resolved of
           Some dependentSet \<Rightarrow> mapSet resolved (setAdd filepath dependentSet) rl1
         | None \<Rightarrow> rl1)"

definition addImport :: "PathModule \<Rightarrow> string list \<Rightarrow> string \<Rightarrow> (string \<times> string list) list
   \<Rightarrow> ImportStatement \<Rightarrow> (string \<times> string list) list" where
  \<comment> \<open>the body of the inner loop; \<open>if (resolved)\<close> is false for \<open>null\<close> and for \<open>''\<close>\<close>
  "addImport P files filepath rl imp =
     (case resolveImportPath P (source imp) filepath files of
        Some resolved \<Rightarrow> if resolved \<noteq> [] then addDependent resolved filepath rl else rl
      | None \<Rightarrow> rl)"

definition buildReverseLookup ::
  "PathModule \<Rightarrow> string list \<Rightarrow> (string \<times> FileNode) list \<Rightarrow> (string \<times> string list) list" where
  \<comment> \<open>the second pass, over the entries of \<open>nodes\<close> in insertion order\<close>
  "buildReverseLookup P files nodes =
     foldl (\<lambda>rl (filepath, node). foldl (addImport P files filepath) rl (nodeImports node))
       [] nodes"

definition setDependents ::
  "(string \<times> FileNode) list \<Rightarrow> string \<times> string list \<Rightarrow> (string \<times> FileNode) list" where
  \<comment> \<open>\<open>node.dependents = Array.from(dependentSet)\<close> when \<open>nodes\<close> has the key\<close>
  "setDependents nodes = (\<lambda>(filepath, dependentSet).
     case map_of nodes filepath of
       Some node \<Rightarrow> mapSet filepath (node\<lparr>dependents := dependentSet\<rparr>) nodes
     | None \<Rightarrow> nodes)"

record DependencyGraph =
  nodes :: "(string \<times> FileNode) list"
  reverseLookup :: "(string \<times> string list) list"

definition buildDependencyGraph ::
  "PathModule \<Rightarrow> fileSystem \<Rightarrow> (string \<Rightarrow> string list) \<Rightarrow> string list \<Rightarrow> nat
   \<Rightarrow> DependencyGraph option" where
  "buildDependencyGraph P readFile extractExports files maxConcurrency =
     (case batchLoop readFile extractExports files maxConcurrency 0 [] of
        None \<Rightarrow> None
      | Some nodeMap \<Rightarrow>
          let rl = buildReverseLookup P files nodeMap
          in Some \<lparr> nodes = foldl setDependents nodeMap rl, reverseLookup = rl \<rparr>)"

subsection \<open>Numbers\<close>

text \<open>
  A number of the source is an IEEE 754 double.  The ranks need the quotient of two set
  sizes and its product with 100, so the model has the doubles that are not negative, as
  the rationals they denote: \<open>toDouble x\<close> is the double nearest to \<open>x \<ge> 0\<close>, with 53
  significant bits and ties going to the even significand.  Exponents are not bounded:
  the values here lie between \<open>2 ^ -53\<close> and 100.
\<close>

function bitLength :: "int \<Rightarrow> nat" where
  \<comment> \<open>the number of binary digits of a positive integer\<close>
  "bitLength n = (if n \<le> 0 then 0 else Suc (bitLength (n div 2)))"
  by pat_completeness auto
termination
  by (relation "measure nat") auto

declare bitLength.simps [simp del]

definition pow2 :: "int \<Rightarrow> rat" where
  "pow2 e = (if 0 \<le> e then 2 ^ nat e else 1 / 2 ^ nat (- e))"

definition floorLog2 :: "rat \<Rightarrow> int" where
  \<comment> \<open>for \<open>x > 0\<close>, the \<open>e\<close> with \<open>2 ^ e \<le> x < 2 ^ (e + 1)\<close>: the bit lengths of numerator
      and denominator leave two candidates\<close>
  "floorLog2 x =
     (case quotient_of x of
        (p, q) \<Rightarrow>
          let d = int (bitLength p) - int (bitLength q)
          in if pow2 d \<le> x then d else d - 1)"

definition roundHalfEven :: "rat \<Rightarrow> int" where
  "roundHalfEven x =
     (let f = \<lfloor>x\<rfloor>; r = x - of_int f
      in if r < 1 / 2 then f else if 1 / 2 < r then f + 1 else if even f then f else f + 1)"

definition toDouble :: "rat \<Rightarrow> rat" where
  "toDouble x =
     (if x \<le> 0 then 0
      else let ulp = pow2 (floorLog2 x - 52) in of_int (roundHalfEven (x / ulp)) * ulp)"

definition mathRound :: "rat \<Rightarrow> int" where
  \<comment> \<open>\<open>Math.round\<close>: the nearest integer, a tie going up\<close>
  "mathRound x = \<lfloor>x + 1 / 2\<rfloor>"

subsection \<open>calculateImportRanks\<close>

datatype rankNumber = Number int | NaN

definition normalizedRank :: "nat \<Rightarrow> nat \<Rightarrow> rankNumber" where
  \<comment> \<open>\<open>Math.round((count / maxDependents) * 100)\<close> for \<open>cnt \<le> maxDependents\<close>, \<open>cnt\<close> being the \<open>count\<close> of the source: the quotient
      is rounded to a double, then the product; \<open>0 / 0\<close> is \<open>NaN\<close>\<close>
  "normalizedRank cnt maxDependents =
     (if maxDependents = 0 then NaN
      else Number (mathRound
             (toDouble (toDouble (of_nat cnt / of_nat maxDependents) * 100))))"

definition calculateImportRanks :: "DependencyGraph \<Rightarrow> (string \<times> rankNumber) list" where
  \<comment> \<open>the size of a \<open>Set\<close> is the length of its list\<close>
  "calculateImportRanks graph =
     (let dependentCounts =
            map (\<lambda>(filepath, deps). (filepath, length deps)) (reverseLookup graph)
      in if dependentCounts = [] then []
         else
           let maxDependents = Max (set (map snd dependentCounts))
           in foldl (\<lambda>ranks (filepath, cnt).
                       mapSet filepath (normalizedRank cnt maxDependents) ranks)
                [] dependentCounts)"

section \<open>Notions used in the proofs\<close>

text \<open>No lower-case letter is directly followed by an upper-case one.\<close>

fun noCamel :: "string \<Rightarrow> bool" where
  "noCamel (a # b # cs) = (\<not> (isLowerAZ a \<and> isUpperAZ b) \<and> noCamel (b # cs))"
| "noCamel cs = True"

text \<open>
  The order the comparator of \<open>search\<close> sorts by: score descending, then path length
  ascending, as a key in the lexicographic order on pairs.
\<close>

definition resultKey :: "SearchResult \<Rightarrow> int \<times> nat" where
  "resultKey r = (- score r, length (resultFile r))"

text \<open>
  Merging two sorted lists, the left one first among equal keys: what a stable sort makes
  of the concatenation of two sorted lists.
\<close>

fun smerge :: "('a \<Rightarrow> 'k::linorder) \<Rightarrow> 'a list \<Rightarrow> 'a list \<Rightarrow> 'a list" where
  "smerge f [] ys = ys"
| "smerge f xs [] = xs"
| "smerge f (x # xs) (y # ys) =
     (if f x \<le> f y then x # smerge f xs (y # ys) else y # smerge f (x # xs) ys)"

text \<open>An engine whose \<open>search\<close> throws, for the example of a worker that catches.\<close>

definition throwingEngine :: engineSearch where
  "throwingEngine query limit = Inl (Exn ''RangeError'')"

text \<open>
  The recognisers of \<open>extractImports\<close> in the order of precedence, and the first of a list
  of recognisers that matches a line.
\<close>

definition recognizers :: "string \<Rightarrow> (string \<Rightarrow> nat \<Rightarrow> ImportStatement option) list" where
  "recognizers filepath =
     [defaultImport, namedImport, starImport, dynamicImport, requireImport]
     @ (if endsWith filepath ''.py'' then [pythonFromImport, pythonImport] else [])"

fun firstMatch ::
  "(string \<Rightarrow> nat \<Rightarrow> ImportStatement option) list \<Rightarrow> string \<Rightarrow> nat \<Rightarrow> ImportStatement option"
where
  "firstMatch [] txt lineNum = None"
| "firstMatch (r # rs) txt lineNum =
     (case r txt lineNum of Some i \<Rightarrow> Some i | None \<Rightarrow> firstMatch rs txt lineNum)"

definition lineResult :: "string \<Rightarrow> nat \<times> string \<Rightarrow> ImportStatement option" where
  \<comment> \<open>what the line \<open>txt\<close> of index \<open>lineNum\<close> contributes\<close>
  "lineResult filepath = (\<lambda>(lineNum, txt).
     if isCommentLine txt then None else firstMatch (recognizers filepath) txt lineNum)"

text \<open>
  A model of the POSIX flavour of the runtime's \<open>path\<close> module, for the examples: paths are
  split at \<open>/\<close>; \<open>normalize\<close> drops empty and \<open>.\<close> segments and resolves \<open>..\<close>.
\<close>

definition isSlash :: "char \<Rightarrow> bool" where
  "isSlash c = (c = CHR ''/'')"

fun normalizeSegments :: "bool \<Rightarrow> string list \<Rightarrow> string list \<Rightarrow> string list" where
  \<comment> \<open>the segments kept so far are in reverse order in the second argument\<close>
  "normalizeSegments allowAboveRoot acc [] = rev acc"
| "normalizeSegments allowAboveRoot acc (seg # rest) =
     (if seg = [] \<or> seg = ''.'' then normalizeSegments allowAboveRoot acc rest
      else if seg = ''..''
      then (case acc of
              a # acc' \<Rightarrow>
                if a \<noteq> ''..'' then normalizeSegments allowAboveRoot acc' rest
                else if allowAboveRoot then normalizeSegments allowAboveRoot (''..'' # acc) rest
                else normalizeSegments allowAboveRoot acc rest
            | [] \<Rightarrow>
                if allowAboveRoot then normalizeSegments allowAboveRoot [''..''] rest
                else normalizeSegments allowAboveRoot [] rest)
      else normalizeSegments allowAboveRoot (seg # acc) rest)"

fun joinSegments :: "string list \<Rightarrow> string" where
  "joinSegments [] = []"
| "joinSegments [seg] = seg"
| "joinSegments (seg # rest) = seg @ ''/'' @ joinSegments rest"

definition posixNormalize :: "string \<Rightarrow> string" where
  "posixNormalize p =
     (if p = [] then ''.''
      else
        let isAbsolute = isSlash (hd p);
            trailingSeparator = isSlash (last p);
            body = joinSegments (normalizeSegments (\<not> isAbsolute) [] (splitChars isSlash p))
        in if body = []
           then (if isAbsolute then ''/'' else if trailingSeparator then ''./'' else ''.'')
           else (if isAbsolute then ''/'' else []) @ body
                @ (if trailingSeparator then ''/'' else []))"

definition posixJoin :: "string \<Rightarrow> string \<Rightarrow> string" where
  "posixJoin a b =
     (if a = [] \<and> b = [] then ''.''
      else if a = [] then posixNormalize b
      else if b = [] then posixNormalize a
      else posixNormalize (a @ ''/'' @ b))"

definition posixDirname :: "string \<Rightarrow> string" where
  "posixDirname p =
     (case p of
        [] \<Rightarrow> ''.''
      | c # cs \<Rightarrow>
          let afterName = dropWhile (\<lambda>d. \<not> isSlash d) (dropWhile isSlash (rev cs))
          in case afterName of
               [] \<Rightarrow> if isSlash c then ''/'' else ''.''
             | _ # front \<Rightarrow>
                 if isSlash c \<and> front = [] then ''//'' else c # rev front)"

definition posixExtname :: "string \<Rightarrow> string" where
  "posixExtname p =
     (let base = rev (takeWhile (\<lambda>d. \<not> isSlash d) (dropWhile isSlash (rev p)));
          afterDot = takeWhile (\<lambda>d. d \<noteq> CHR ''.'') (rev base)
      in if CHR ''.'' \<notin> set base \<or> length afterDot + 1 = length base \<or> base = ''..''
         then []
         else drop (length base - length afterDot - 1) base)"

definition posix :: PathModule where
  "posix = \<lparr> dirname = posixDirname, join = posixJoin, extname = posixExtname \<rparr>"

text \<open>A small project for the examples, and an extractor that finds no exports.\<close>

definition quoted :: "string \<Rightarrow> string" where
  "quoted s = [CHR 0x27] @ s @ [CHR 0x27]"

definition demoFiles :: fileSystem where
  "demoFiles = map_of
     [(''src/a.ts'',
         ''import React from '' @ quoted ''react'' @ [CHR 0x0A]
         @ ''import { b } from '' @ quoted ''./b'' @ [CHR 0x0A]
         @ ''// import x from '' @ quoted ''./c'' @ [CHR 0x0A]
         @ ''const u = require('' @ quoted ''./util'' @ '')''),
      (''src/b.ts'',
         ''import * as U from '' @ quoted ''./util'' @ '';''),
      (''src/util/index.ts'', ''export const x = 1''),
      (''src/c.ts'', ''import { a } from '' @ quoted ''./a.js'')]"

definition demoPaths :: "string list" where
  "demoPaths = [''src/a.ts'', ''src/b.ts'', ''src/util/index.ts'', ''src/c.ts'']"

definition noExports :: "string \<Rightarrow> string list" where
  "noExports filepath = []"

text \<open>
  What the reverse lookup is to satisfy, for one key with its set: the key is a scanned
  file, and every member of the set is a scanned file with an import that is not external
  and resolves to the key.
\<close>

definition entryOk ::
  "PathModule \<Rightarrow> fileSystem \<Rightarrow> string list \<Rightarrow> string \<Rightarrow> string list \<Rightarrow> bool" where
  "entryOk P readFile files target importers =
     (target \<in> set files
      \<and> list_all (\<lambda>importer.
            importer \<in> set files
            \<and> list_ex (\<lambda>imp. \<not> isExternal (source imp)
                              \<and> resolveImportPath P (source imp) importer files = Some target)
                  (extractImports readFile importer))
          importers)"

text \<open>
  A node of the graph belongs to a scanned file and holds that file's imports; every entry
  of a reverse lookup is as \<open>entryOk\<close> asks.
\<close>

definition nodeOk :: "fileSystem \<Rightarrow> string list \<Rightarrow> string \<times> FileNode \<Rightarrow> bool" where
  "nodeOk rd files = (\<lambda>(fp, node). fp \<in> set files \<and> nodeImports node = extractImports rd fp)"

definition rlOk :: "PathModule \<Rightarrow> fileSystem \<Rightarrow> string list \<Rightarrow> (string \<times> string list) list \<Rightarrow> bool" where
  "rlOk P rd files rl = (\<forall>(t, ds) \<in> set rl. entryOk P rd files t ds)"

text \<open>Distinct file names, for an example with many importers.\<close>

definition manyFiles :: "nat \<Rightarrow> string list" where
  "manyFiles n = map (\<lambda>i. ''f'' @ replicate i CHR ''x'') [0..<n]"

definition rankGraph :: "(string \<times> string list) list \<Rightarrow> DependencyGraph" where
  \<comment> \<open>a graph with a given reverse lookup; \<open>calculateImportRanks\<close> reads nothing else\<close>
  "rankGraph rl = \<lparr> nodes = [], reverseLookup = rl \<rparr>"

section \<open>Verified properties\<close>

subsection \<open>normalizeSeparators\<close>

lemma camelSpaces_keeps_head: "\<exists>r. camelSpaces (b # cs) = b # r"
  by (cases cs) auto

lemma space_not_letter: "\<not> isLowerAZ CHR '' ''" "\<not> isUpperAZ CHR '' ''"
  by (simp_all add: isLowerAZ_def isUpperAZ_def)

lemma upper_not_lower: "isUpperAZ b \<Longrightarrow> \<not> isLowerAZ b"
  by (simp add: isLowerAZ_def isUpperAZ_def)

lemma noCamel_Cons: "noCamel r \<Longrightarrow> \<not> isLowerAZ b \<Longrightarrow> noCamel (b # r)"
  by (cases r) auto

lemma noCamel_tail: "noCamel (c # cs) \<Longrightarrow> noCamel cs"
  by (cases cs) auto

lemma noCamel_dropWhile: "noCamel s \<Longrightarrow> noCamel (dropWhile P s)"
  by (induction s) (auto dest: noCamel_tail)

lemma noCamel_camelSpaces: "noCamel (camelSpaces s)"
proof (induction s rule: camelSpaces.induct)
  case (1 a b cs)
  show ?case
  proof (cases "isLowerAZ a \<and> isUpperAZ b")
    case True
    with 1 have "noCamel (camelSpaces cs)" by simp
    then have "noCamel (b # camelSpaces cs)"
      using True by (intro noCamel_Cons) (auto dest: upper_not_lower)
    then show ?thesis using True by (simp add: space_not_letter)
  next
    case False
    with 1 have ih: "noCamel (camelSpaces (b # cs))" by simp
    obtain r where r: "camelSpaces (b # cs) = b # r"
      using camelSpaces_keeps_head by blast
    show ?thesis
      using False ih r
      by (auto simp del: camelSpaces.simps simp add: camelSpaces.simps(1)[of a b cs])
  qed
qed simp_all

lemma camelSpaces_fixed: "noCamel s \<Longrightarrow> camelSpaces s = s"
  by (induction s rule: camelSpaces.induct) auto

lemma noCamel_collapseRuns:
  "noCamel s \<Longrightarrow> noCamel (collapseRuns isSepChar s)"
proof (induction isSepChar s rule: collapseRuns.induct)
  case 1
  then show ?case by simp
next
  case (2 c cs)
  show ?case
  proof (cases "isSepChar c")
    case True
    have "noCamel (dropWhile isSepChar cs)"
      using 2(3) by (intro noCamel_dropWhile) (rule noCamel_tail)
    with 2 True have "noCamel (collapseRuns isSepChar (dropWhile isSepChar cs))" by simp
    then show ?thesis using True
      by (auto intro!: noCamel_Cons simp: space_not_letter)
  next
    case False
    have ih: "noCamel (collapseRuns isSepChar cs)"
      using 2 False by (auto dest: noCamel_tail)
    show ?thesis
    proof (cases cs)
      case Nil
      then show ?thesis using False by simp
    next
      case (Cons d ds)
      show ?thesis
      proof (cases "isSepChar d")
        case True
        then show ?thesis using False ih Cons by (simp add: space_not_letter)
      next
        case notSep: False
        then show ?thesis using False ih Cons 2(3) by simp
      qed
    qed
  qed
qed

lemma dropWhile_collapseRuns:
  "(case t of [] \<Rightarrow> True | d # _ \<Rightarrow> \<not> P d) \<Longrightarrow>
   dropWhile P (collapseRuns P t) = collapseRuns P t"
  by (cases t) auto

lemma dropWhile_head: "(case dropWhile P cs of [] \<Rightarrow> True | d # _ \<Rightarrow> \<not> P d)"
  by (induction cs) auto

lemma collapseRuns_idem:
  "P CHR '' '' \<Longrightarrow> collapseRuns P (collapseRuns P s) = collapseRuns P s"
proof (induction P s rule: collapseRuns.induct)
  case (1 P)
  then show ?case by simp
next
  case (2 P c cs)
  show ?case
  proof (cases "P c")
    case True
    have "dropWhile P (collapseRuns P (dropWhile P cs)) = collapseRuns P (dropWhile P cs)"
      by (rule dropWhile_collapseRuns) (rule dropWhile_head)
    then show ?thesis using 2 True by simp
  next
    case False
    then show ?thesis using 2 by simp
  qed
qed

lemma isSepChar_space: "isSepChar CHR '' ''"
  by (simp add: isSepChar_def isSpaceChar_def)

lemma normalizeSeparators_idem:
  "normalizeSeparators (normalizeSeparators x) = normalizeSeparators x"
proof -
  have "noCamel (normalizeSeparators x)"
    unfolding normalizeSeparators_def by (intro noCamel_collapseRuns noCamel_camelSpaces)
  then have "camelSpaces (normalizeSeparators x) = normalizeSeparators x"
    by (rule camelSpaces_fixed)
  then show ?thesis
    unfolding normalizeSeparators_def by (simp add: collapseRuns_idem isSepChar_space)
qed

text \<open>
  Claim C5, as stated: \<open>normalizeSeparators\<close> is idempotent, and it maps both
  \<open>ScriptController\<close> and \<open>script_controller\<close> to \<open>script controller\<close>, lower-casing as its
  last step.  The function has no lower-casing step: \<open>ScriptController\<close> becomes
  \<open>Script Controller\<close>.
\<close>

theorem C5_normalizeSeparators_keeps_case:
  "normalizeSeparators ''ScriptController'' \<noteq> ''script controller''
   \<and> normalizeSeparators ''ScriptController'' \<noteq> normalizeSeparators ''script_controller''"
  by code_simp

text \<open>
  Claim C5, amended: \<open>normalizeSeparators\<close> is idempotent on every string; it inserts a
  space at every lower-to-upper transition and collapses every run of \<open>-\<close>, \<open>_\<close> and
  white space to one space, and it keeps the case of its input.  So \<open>script_controller\<close>
  becomes \<open>script controller\<close>, \<open>ScriptController\<close> becomes \<open>Script Controller\<close>, and the two
  agree after the lower-casing that \<open>search\<close> applies to the result.
\<close>

theorem C5_normalizeSeparators_idempotent:
  "normalizeSeparators (normalizeSeparators x) = normalizeSeparators x
   \<and> normalizeSeparators ''script_controller'' = ''script controller''
   \<and> normalizeSeparators ''ScriptController'' = ''Script Controller''
   \<and> toLowerCase (normalizeSeparators ''ScriptController'')
       = toLowerCase (normalizeSeparators ''script_controller'')"
proof -
  have "normalizeSeparators ''script_controller'' = ''script controller''"
    by code_simp
  moreover have "normalizeSeparators ''ScriptController'' = ''Script Controller''"
    by code_simp
  moreover have "toLowerCase (normalizeSeparators ''ScriptController'')
       = toLowerCase (normalizeSeparators ''script_controller'')"
    by code_simp
  ultimately show ?thesis
    using normalizeSeparators_idem by simp
qed

theorem C5_normalizeSeparators_idempotent_witness:
  "normalizeSeparators (normalizeSeparators ''my-File_Name v2'')
     = normalizeSeparators ''my-File_Name v2''"
  using C5_normalizeSeparators_idempotent [of "''my-File_Name v2''"] by simp

subsection \<open>search\<close>

lemma compareResults_key: "compareResults x y \<le> 0 \<longleftrightarrow> resultKey x \<le> resultKey y"
  by (auto simp: compareResults_def resultKey_def less_eq_prod_def)

lemma insertResult_insort: "insertResult x ys = insort_key resultKey x ys"
  by (induction ys) (auto simp: compareResults_key)

lemma sortResults_sort_key: "sortResults xs = sort_key resultKey xs"
  by (induction xs) (auto simp: sortResults_def insertResult_insort)







subsection \<open>scoreEntry\<close>

text \<open>
  Claim C3, as stated: a record whose extension differs from a known extension named in
  the query scores exactly 0, the disqualification coming before any other scoring.  The
  three exact-match returns of \<open>scoreEntry\<close> come first: the query \<open>foo.py\<close> against the file
  \<open>foo.ts\<close> is an exact match of the file name without extension and scores 5000.
\<close>

theorem C3_extension_filter_after_exact_tiers:
  "extensionMatch ''foo.py'' = Some ''py''
   \<and> ext (indexEntry ''foo.ts'') = ''.ts''
   \<and> scoreEntry (indexEntry ''foo.ts'') [''foo.py''] ''foo.py'' ''foo.py'' = 5000
   \<and> search (buildIndex [''foo.ts'']) ''foo.py'' 10
       = [\<lparr>resultFile = ''foo.ts'', score = 5000, matchType = Exact\<rparr>]"
  by code_simp

text \<open>
  Claim C3, amended: when none of the three exact-match returns applies (the lower-cased
  file name is not the full query, the normalised file name is not the normalised query,
  and the file name without extension is not the query without extension), a query whose
  first known-extension token differs from the record's extension gives the record the
  score exactly 0, whatever the terms are.
\<close>

theorem C3_extension_disqualification:
  assumes "fileNameLower entry \<noteq> fullQueryLower"
    and "fileNameNormalized entry \<noteq> toLowerCase (normalizeSeparators originalQuery)"
    and "toLowerCase (stripExtension (fileName entry)) \<noteq> stripExtension fullQueryLower"
    and "extensionMatch originalQuery = Some queryExt"
    and "ext entry \<noteq> ''.'' @ toLowerCase queryExt"
  shows "scoreEntry entry terms fullQueryLower originalQuery = 0"
  using assms by (simp add: scoreEntry_def extensionDisqualified_def)

theorem C3_extension_disqualification_witness:
  "fileNameLower (indexEntry ''src/bar.ts'') \<noteq> ''foo.py''
   \<and> fileNameNormalized (indexEntry ''src/bar.ts'') \<noteq> toLowerCase (normalizeSeparators ''foo.py'')
   \<and> toLowerCase (stripExtension (fileName (indexEntry ''src/bar.ts''))) \<noteq> stripExtension ''foo.py''
   \<and> extensionMatch ''foo.py'' = Some ''py''
   \<and> ext (indexEntry ''src/bar.ts'') \<noteq> ''.'' @ toLowerCase ''py''
   \<and> scoreEntry (indexEntry ''src/bar.ts'') [''foo.py''] ''foo.py'' ''foo.py'' = 0"
proof -
  have h1: "fileNameLower (indexEntry ''src/bar.ts'') \<noteq> ''foo.py''" by code_simp
  have h2: "fileNameNormalized (indexEntry ''src/bar.ts'')
              \<noteq> toLowerCase (normalizeSeparators ''foo.py'')" by code_simp
  have h3: "toLowerCase (stripExtension (fileName (indexEntry ''src/bar.ts'')))
              \<noteq> stripExtension ''foo.py''" by code_simp
  have h4: "extensionMatch ''foo.py'' = Some ''py''" by code_simp
  have h5: "ext (indexEntry ''src/bar.ts'') \<noteq> ''.'' @ toLowerCase ''py''" by code_simp
  from C3_extension_disqualification [OF h1 h2 h3 h4 h5, of "[''foo.py'']"] h1 h2 h3 h4 h5
  show ?thesis by blast
qed

text \<open>
  Claim C4: a record whose file name equals the full query, ignoring case, scores 10000.
  \<open>search\<close> hands \<open>scoreEntry\<close> the query after \<open>normalizeSeparators\<close>, so the query
  \<open>download_manager.cc\<close> is compared as \<open>download manager.cc\<close>: the first return is missed
  and the second one gives 9000.
\<close>

theorem C4_download_manager_scores_9000:
  "fileNameLower (indexEntry ''src/net/download_manager.cc'') = toLowerCase ''download_manager.cc''
   \<and> scoreQuery (indexEntry ''src/net/download_manager.cc'') ''download_manager.cc'' = 9000
   \<and> search (buildIndex [''src/net/download_manager.cc'']) ''download_manager.cc'' 10
       = [\<lparr>resultFile = ''src/net/download_manager.cc'', score = 9000, matchType = Exact\<rparr>]"
  by code_simp






subsection \<open>The parallel orchestrator\<close>

lemma insort_smerge:
  "insort_key f x (smerge f as bs) = smerge f (insort_key f x as) bs"
proof (induction f as bs rule: smerge.induct)
  case (1 f ys)
  show ?case by (induction ys) auto
next
  case (2 f v va)
  then show ?case by simp
next
  case (3 f a as b bs)
  then show ?case by auto
qed

lemma sort_key_append_smerge:
  "sort_key f (xs @ ys) = smerge f (sort_key f xs) (sort_key f ys)"
  by (induction xs) (auto simp: insort_smerge)

lemma take_smerge_take:
  "k \<le> m \<Longrightarrow> k \<le> n \<Longrightarrow>
   take k (smerge f (take m as) (take n bs)) = take k (smerge f as bs)"
proof (induction k arbitrary: as bs m n)
  case 0
  then show ?case by simp
next
  case (Suc k)
  obtain m' n' where mn: "m = Suc m'" "n = Suc n'" "k \<le> m'" "k \<le> n'"
    using Suc.prems by (cases m; cases n) auto
  show ?case
  proof (cases as)
    case Nil
    then show ?thesis using Suc.prems by (simp add: min_def)
  next
    case A: (Cons a as')
    show ?thesis
    proof (cases bs)
      case Nil
      then show ?thesis using Suc.prems A mn by (simp add: min_def)
    next
      case B: (Cons b bs')
      show ?thesis
      proof (cases "f a \<le> f b")
        case True
        have "take k (smerge f (take m' as') (take n (b # bs'))) = take k (smerge f as' (b # bs'))"
          using Suc.IH [of m' n as' "b # bs'"] mn Suc.prems by simp
        then show ?thesis using True A B mn by simp
      next
        case False
        have "take k (smerge f (take m (a # as')) (take n' bs')) = take k (smerge f (a # as') bs')"
          using Suc.IH [of m n' "a # as'" bs'] mn Suc.prems by simp
        then show ?thesis using False A B mn by simp
      qed
    qed
  qed
qed

lemma sort_key_take_sorted:
  "sort_key f (take k (sort_key f xs)) = take k (sort_key f xs)"
  by (rule sort_key_id_if_sorted) (simp add: sorted_wrt_take flip: take_map)

lemma topk_of_shards:
  "take k (sort_key f (concat (map (\<lambda>xs. take k (sort_key f xs)) xss)))
   = take k (sort_key f (concat xss))"
proof (induction xss)
  case Nil
  then show ?case by simp
next
  case (Cons xs xss)
  let ?C = "concat (map (\<lambda>xs. take k (sort_key f xs)) xss)"
  have "take k (sort_key f (take k (sort_key f xs) @ ?C))
        = take k (smerge f (take k (sort_key f xs)) (sort_key f ?C))"
    by (simp add: sort_key_append_smerge sort_key_take_sorted)
  also have "\<dots> = take k (smerge f (take k (take k (sort_key f xs))) (take k (sort_key f ?C)))"
    by (rule take_smerge_take [symmetric]) simp_all
  also have "\<dots> = take k (smerge f (take k (sort_key f xs)) (take k (sort_key f (concat xss))))"
    using Cons.IH by simp
  also have "\<dots> = take k (smerge f (sort_key f xs) (sort_key f (concat xss)))"
    by (rule take_smerge_take) simp_all
  also have "\<dots> = take k (sort_key f (xs @ concat xss))"
    by (simp add: sort_key_append_smerge)
  finally show ?case by simp
qed

lemma concat_slices:
  "concat (map (\<lambda>i. slice (i * c) (i * c + c) xs) [0..<w]) = take (w * c) xs"
proof (induction w)
  case 0
  then show ?case by simp
next
  case (Suc w)
  have "take (w * c) xs @ take c (drop (w * c) xs) = take (w * c + c) xs"
    by (simp add: take_add)
  then show ?case using Suc by (simp add: slice_def add.commute)
qed

lemma concat_filter_nonempty: "concat (filter (\<lambda>c. c \<noteq> []) xss) = concat xss"
  by (induction xss) auto

lemma chunkSize_covers: "0 < wc \<Longrightarrow> len \<le> wc * chunkSize len wc"
proof -
  assume wc: "0 < wc"
  have "len + wc - 1 < wc * ((len + wc - 1) div wc) + wc"
    using wc by (metis add.commute mod_less_divisor mult.commute div_mult_mod_eq add_less_cancel_left)
  then show ?thesis using wc by (simp add: chunkSize_def)
qed

lemma workerCount_pos: "0 < workerCount cpus"
  by (simp add: workerCount_def)

lemma concat_chunks: "concat (chunks cpus allFiles) = allFiles"
  using chunkSize_covers [OF workerCount_pos, of "length allFiles" cpus]
  by (simp add: chunks_def Let_def concat_filter_nonempty concat_slices)

lemma collectResults_append:
  "collectResults (xs @ ys) q = collectResults xs q @ collectResults ys q"
  by (induction xs) (auto simp: Let_def)

lemma collectResults_concat:
  "collectResults (concat (map buildIndex cs)) q
   = concat (map (\<lambda>c. collectResults (buildIndex c) q) cs)"
  by (induction cs) (auto simp: collectResults_append)

lemma buildIndex_concat: "buildIndex (concat cs) = concat (map buildIndex cs)"
  by (induction cs) (auto simp: buildIndex_def)

lemma concat_map_Nil: "concat (map (\<lambda>c. []) cs) = []"
  by (induction cs) auto

lemma promiseAll_running:
  "promiseAll (map (\<lambda>c. workerPromise (Running (engineOf c)) q k) cs)
   = Inr (map (\<lambda>c. search (buildIndex c) q k) cs)"
  by (induction cs) (auto simp: workerPromise_def onMessage_def engineOf_def)

lemma search_shards:
  "take k (sortResults (concat (map (\<lambda>c. search (buildIndex c) q k) cs)))
   = search (buildIndex (concat cs)) q k"
proof (cases "q = [] \<or> queryTerms (toLowerCase (normalizeSeparators (trim q))) = []")
  case True
  then have "\<And>c. search (buildIndex c) q k = []" by (auto simp: search_def)
  then show ?thesis using True by (auto simp: search_def sortResults_def concat_map_Nil)
next
  case False
  have "take k (sort_key resultKey
          (concat (map (\<lambda>xs. take k (sort_key resultKey xs))
                     (map (\<lambda>c. collectResults (buildIndex c) q) cs))))
        = take k (sort_key resultKey (concat (map (\<lambda>c. collectResults (buildIndex c) q) cs)))"
    by (rule topk_of_shards)
  then show ?thesis
    using False
    by (simp add: search_def sortResults_sort_key buildIndex_concat collectResults_concat
        comp_def)
qed

text \<open>
  Claim C1: for every file list, query and limit (and every number of CPUs), the
  orchestrator's \<open>search\<close> over the workers made by \<open>initWorkers\<close> resolves, and with the
  very list a single engine over the whole file list returns: the same paths with the same
  scores in the same order.  The truncation of every shard's result at \<open>limit\<close> drops
  nothing of the global first \<open>limit\<close> results.
\<close>

theorem C1_parallel_equals_single:
  "parallelSearch (initWorkers cpus allFiles) query limit
   = Inr (search (buildIndex allFiles) query limit)"
proof (cases "query = []")
  case True
  then show ?thesis by (simp add: parallelSearch_def search_def)
next
  case False
  then show ?thesis
    using search_shards [of limit query "chunks cpus allFiles"]
    by (simp add: parallelSearch_def initWorkers_def comp_def promiseAll_running concat_chunks)
qed

theorem C1_parallel_equals_single_witness:
  "parallelSearch
     (initWorkers 4 [''a/router.test.ts'', ''b/Router.tsx'', ''a/router.ts'', ''c/main.ts'']) ''router'' 2
   = Inr [\<lparr>resultFile = ''a/router.ts'', score = 5000, matchType = Exact\<rparr>,
          \<lparr>resultFile = ''b/Router.tsx'', score = 5000, matchType = Exact\<rparr>]"
proof -
  have s: "search (buildIndex [''a/router.test.ts'', ''b/Router.tsx'', ''a/router.ts'', ''c/main.ts''])
             ''router'' 2
           = [\<lparr>resultFile = ''a/router.ts'', score = 5000, matchType = Exact\<rparr>,
              \<lparr>resultFile = ''b/Router.tsx'', score = 5000, matchType = Exact\<rparr>]"
    by code_simp
  show ?thesis
    unfolding C1_parallel_equals_single s ..
qed

lemma promiseAll_failing:
  "Inl e \<in> set ps \<Longrightarrow> \<exists>e'. promiseAll ps = Inl e'"
proof (induction ps)
  case Nil
  then show ?case by simp
next
  case (Cons p ps)
  show ?case
  proof (cases p)
    case (Inl a)
    then show ?thesis by simp
  next
    case (Inr v)
    with Cons obtain e' where "promiseAll ps = Inl e'" by auto
    then show ?thesis using Inr by simp
  qed
qed

lemma promiseAll_Cons_Inr:
  "map_sum id concat (promiseAll (Inr v # ps)) = map_sum id ((@) v) (map_sum id concat (promiseAll ps))"
  by (cases "promiseAll ps") simp_all

lemma promiseAll_drop_empty:
  "map_sum id concat (promiseAll (ps1 @ Inr [] # ps2)) = map_sum id concat (promiseAll (ps1 @ ps2))"
proof (induction ps1)
  case Nil
  show ?case by (cases "promiseAll ps2") simp_all
next
  case (Cons p ps1)
  show ?case
  proof (cases p)
    case (Inl e)
    then show ?thesis by simp
  next
    case (Inr v)
    have "map_sum id concat (promiseAll (Inr v # (ps1 @ Inr [] # ps2)))
          = map_sum id concat (promiseAll (Inr v # (ps1 @ ps2)))"
      unfolding promiseAll_Cons_Inr Cons.IH ..
    then show ?thesis using Inr by (simp only: append_Cons)
  qed
qed

lemma parallelSearch_concat:
  "parallelSearch workers query limit =
     (if query = [] then Inr []
      else map_sum id (\<lambda>merged. take limit (sortResults merged))
             (map_sum id concat (promiseAll (map (\<lambda>w. workerPromise w query limit) workers))))"
  by (cases "promiseAll (map (\<lambda>w. workerPromise w query limit) workers)")
     (simp_all add: parallelSearch_def)

text \<open>
  Claim C2, as stated: whenever a worker meets an error while it handles a search, the
  whole call fails, and no result leaves a failing shard out.  The worker's message
  handler catches what \<open>engine.search\<close> throws and posts an empty list: the call resolves
  with the results of the other shards.
\<close>

theorem C2_throwing_worker_is_skipped:
  "throwingEngine ''router'' 10 = Inl (Exn ''RangeError'')
   \<and> parallelSearch [Running throwingEngine, Running (engineOf [''a/router.ts''])] ''router'' 10
       = Inr [\<lparr>resultFile = ''a/router.ts'', score = 5000, matchType = Exact\<rparr>]"
proof -
  have "search (buildIndex [''a/router.ts'']) ''router'' 10
        = [\<lparr>resultFile = ''a/router.ts'', score = 5000, matchType = Exact\<rparr>]"
    by code_simp
  then show ?thesis
    by (simp add: parallelSearch_def workerPromise_def onMessage_def throwingEngine_def
        engineOf_def sortResults_def)
qed

text \<open>
  Claim C2, amended: an \<open>'error'\<close> event of any worker rejects the whole call (for a
  non-empty query; an empty query resolves to the empty list without asking a worker).
  An exception thrown by \<open>engine.search\<close> inside a worker is caught there: the worker
  answers with the empty list, and the call's outcome is the one it has without that
  worker.
\<close>

theorem C2_worker_errors:
  "(query \<noteq> [] \<longrightarrow> Failing e \<in> set workers \<longrightarrow>
      (\<exists>e'. parallelSearch workers query limit = Inl e'))
   \<and> (engine query limit = Inl err \<longrightarrow>
      parallelSearch (ws1 @ Running engine # ws2) query limit
      = parallelSearch (ws1 @ ws2) query limit)"
proof (intro conjI impI)
  assume q: "query \<noteq> []" and f: "Failing e \<in> set workers"
  have wp: "workerPromise (Failing e) query limit = Inl e"
    by (simp add: workerPromise_def)
  from f have "workerPromise (Failing e) query limit
                 \<in> (\<lambda>w. workerPromise w query limit) ` set workers"
    by (rule imageI)
  then have "Inl e \<in> set (map (\<lambda>w. workerPromise w query limit) workers)"
    using wp by simp
  from promiseAll_failing [OF this]
  obtain e' where "promiseAll (map (\<lambda>w. workerPromise w query limit) workers) = Inl e'" ..
  then show "\<exists>e'. parallelSearch workers query limit = Inl e'"
    using q by (simp add: parallelSearch_def)
next
  assume t: "engine query limit = Inl err"
  then have "workerPromise (Running engine) query limit = Inr []"
    by (simp add: workerPromise_def onMessage_def)
  then show "parallelSearch (ws1 @ Running engine # ws2) query limit
      = parallelSearch (ws1 @ ws2) query limit"
    unfolding parallelSearch_concat
    by (simp add: promiseAll_drop_empty)
qed

theorem C2_worker_errors_witness:
  "''router'' \<noteq> [] \<and> Failing (Exn ''boom'') \<in> set [Running (engineOf [''a/router.ts'']), Failing (Exn ''boom'')]
   \<and> (\<exists>e'. parallelSearch [Running (engineOf [''a/router.ts'']), Failing (Exn ''boom'')] ''router'' 10 = Inl e')
   \<and> throwingEngine ''router'' 10 = Inl (Exn ''RangeError'')
   \<and> parallelSearch ([] @ Running throwingEngine # [Running (engineOf [''a/router.ts''])]) ''router'' 10
       = parallelSearch ([] @ [Running (engineOf [''a/router.ts''])]) ''router'' 10"
proof -
  have h1: "''router'' \<noteq> []" by simp
  have h2: "Failing (Exn ''boom'') \<in> set [Running (engineOf [''a/router.ts'']), Failing (Exn ''boom'')]"
    by simp
  have h3: "throwingEngine ''router'' 10 = Inl (Exn ''RangeError'')"
    by (simp add: throwingEngine_def)
  have a: "\<exists>e'. parallelSearch [Running (engineOf [''a/router.ts'']), Failing (Exn ''boom'')]
              ''router'' 10 = Inl e'"
    by (rule C2_worker_errors [THEN conjunct1, rule_format, OF h1 h2])
  have b: "parallelSearch ([] @ Running throwingEngine # [Running (engineOf [''a/router.ts''])])
             ''router'' 10
           = parallelSearch ([] @ [Running (engineOf [''a/router.ts''])]) ''router'' 10"
    by (rule C2_worker_errors [of _ _ _ 10 throwingEngine "Exn ''RangeError''" "[]"
          "[Running (engineOf [''a/router.ts''])]", THEN conjunct2, rule_format, OF h3])
  show ?thesis
    by (intro conjI h1 h2 h3 a b)
qed

subsection \<open>extractImports\<close>

lemma scanLine_firstMatch:
  "scanLine filepath txt lineNum = lineResult filepath (lineNum, txt)"
  by (simp add: scanLine_def lineResult_def recognizers_def split: option.splits)

lemma recognizer_line:
  "r \<in> set (recognizers filepath) \<Longrightarrow> r txt lineNum = Some i \<Longrightarrow> line i = lineNum + 1"
  by (auto simp: recognizers_def defaultImport_def namedImport_def starImport_def
      dynamicImport_def requireImport_def pythonFromImport_def pythonImport_def
      split: option.splits if_splits)

lemma firstMatch_line:
  "(\<And>r. r \<in> set rs \<Longrightarrow> r txt lineNum = Some i \<Longrightarrow> line i = lineNum + 1) \<Longrightarrow>
   firstMatch rs txt lineNum = Some i \<Longrightarrow> line i = lineNum + 1"
  by (induction rs) (auto split: option.splits)

lemma scanLine_line:
  assumes "scanLine filepath txt lineNum = Some i"
  shows "line i = lineNum + 1"
proof -
  from assms have fm: "firstMatch (recognizers filepath) txt lineNum = Some i"
    by (auto simp: scanLine_firstMatch lineResult_def split: if_splits)
  show ?thesis
    by (rule firstMatch_line [OF _ fm]) (rule recognizer_line)
qed

lemma scanLines_map_filter:
  "scanLines filepath k ls = List.map_filter (lineResult filepath) (enumerate k ls)"
  by (induction ls arbitrary: k)
     (auto simp: List.map_filter_simps scanLine_firstMatch split: option.splits)

lemma scanLines_member:
  "i \<in> set (scanLines filepath k ls) \<Longrightarrow>
   \<exists>j < length ls. scanLine filepath (ls ! j) (k + j) = Some i"
proof (induction ls arbitrary: k)
  case Nil
  then show ?case by simp
next
  case (Cons l ls)
  show ?case
  proof (cases "scanLine filepath l k = Some i")
    case True
    then have "scanLine filepath ((l # ls) ! 0) (k + 0) = Some i" by simp
    then show ?thesis by (intro exI [of _ 0]) simp
  next
    case False
    with Cons.prems have "i \<in> set (scanLines filepath (k + 1) ls)"
      by (auto split: option.splits)
    from Cons.IH [OF this] obtain j where
      j: "j < length ls" "scanLine filepath (ls ! j) (k + 1 + j) = Some i" by auto
    then have "scanLine filepath ((l # ls) ! Suc j) (k + Suc j) = Some i" by simp
    then show ?thesis using j(1) by (intro exI [of _ "Suc j"]) simp
  qed
qed

lemma scanLines_lines_above:
  "i \<in> set (scanLines filepath k ls) \<Longrightarrow> k < line i"
  by (auto dest!: scanLines_member scanLine_line)

lemma scanLines_distinct_lines: "distinct (map line (scanLines filepath k ls))"
proof (induction ls arbitrary: k)
  case Nil
  then show ?case by simp
next
  case (Cons l ls)
  show ?case
  proof (cases "scanLine filepath l k")
    case None
    then show ?thesis using Cons.IH by simp
  next
    case (Some i)
    have "line i = k + 1" using Some by (rule scanLine_line)
    moreover have "\<And>i'. i' \<in> set (scanLines filepath (k + 1) ls) \<Longrightarrow> k + 1 < line i'"
      by (rule scanLines_lines_above)
    ultimately have "line i \<notin> line ` set (scanLines filepath (k + 1) ls)" by force
    then show ?thesis using Some Cons.IH by simp
  qed
qed

lemma distinct_filter_le_1:
  "distinct (map f xs) \<Longrightarrow> length (filter (\<lambda>x. f x = n) xs) \<le> 1"
proof (induction xs)
  case Nil
  then show ?case by simp
next
  case (Cons x xs)
  show ?case
  proof (cases "f x = n")
    case True
    then have "filter (\<lambda>x. f x = n) xs = []"
      using Cons.prems by (auto simp: filter_empty_conv image_iff)
    then show ?thesis using True by simp
  next
    case False
    then show ?thesis using Cons by simp
  qed
qed

text \<open>
  Claim C10: \<open>extractImports\<close> gives at most one statement for each line of the file.  A
  line whose trimmed text starts with \<open>//\<close>, \<open>*\<close> or \<open>/*\<close> gives none; any other line gives
  the statement of the first recogniser that matches it, in the order default import,
  named import, namespace import, dynamic import, \<open>require\<close>, and then, for a \<open>.py\<close> file,
  \<open>from X import Y\<close> and \<open>import X\<close>; and every statement carries the 1-based number of its
  line.  A file that cannot be read gives no statement.
\<close>

theorem C10_extractImports_one_per_line:
  "extractImports readFile filepath =
     (case readFile filepath of
        None \<Rightarrow> []
      | Some content \<Rightarrow>
          List.map_filter (lineResult filepath) (enumerate 0 (splitLines content)))
   \<and> (\<forall>n. length (filter (\<lambda>i. line i = n) (extractImports readFile filepath)) \<le> 1)
   \<and> (\<forall>i \<in> set (extractImports readFile filepath).
         \<exists>content. readFile filepath = Some content
           \<and> 1 \<le> line i \<and> line i \<le> length (splitLines content)
           \<and> \<not> isCommentLine (splitLines content ! (line i - 1))
           \<and> firstMatch (recognizers filepath) (splitLines content ! (line i - 1)) (line i - 1)
               = Some i)"
proof (intro conjI allI ballI)
  show "extractImports readFile filepath =
     (case readFile filepath of
        None \<Rightarrow> []
      | Some content \<Rightarrow>
          List.map_filter (lineResult filepath) (enumerate 0 (splitLines content)))"
    by (simp add: extractImports_def scanLines_map_filter split: option.splits)
next
  fix n
  show "length (filter (\<lambda>i. line i = n) (extractImports readFile filepath)) \<le> 1"
  proof (cases "readFile filepath")
    case None
    then show ?thesis by (simp add: extractImports_def)
  next
    case (Some content)
    then show ?thesis
      using distinct_filter_le_1 [OF scanLines_distinct_lines]
      by (simp add: extractImports_def)
  qed
next
  fix i assume i: "i \<in> set (extractImports readFile filepath)"
  then obtain content where c: "readFile filepath = Some content"
    by (cases "readFile filepath") (auto simp: extractImports_def)
  with i have "i \<in> set (scanLines filepath 0 (splitLines content))"
    by (simp add: extractImports_def)
  from scanLines_member [OF this] obtain j where
    j: "j < length (splitLines content)" "scanLine filepath (splitLines content ! j) (0 + j) = Some i"
    by auto
  from scanLine_line [OF j(2)] have l: "line i = j + 1" by simp
  from j(2) have "lineResult filepath (j, splitLines content ! j) = Some i"
    by (simp add: scanLine_firstMatch)
  then have "\<not> isCommentLine (splitLines content ! j)"
    "firstMatch (recognizers filepath) (splitLines content ! j) j = Some i"
    by (auto simp: lineResult_def split: if_splits)
  then show "\<exists>content. readFile filepath = Some content
           \<and> 1 \<le> line i \<and> line i \<le> length (splitLines content)
           \<and> \<not> isCommentLine (splitLines content ! (line i - 1))
           \<and> firstMatch (recognizers filepath) (splitLines content ! (line i - 1)) (line i - 1)
               = Some i"
    using c j(1) l by (intro exI [of _ content]) simp
qed

theorem C10_extractImports_one_per_line_witness:
  "extractImports demoFiles ''src/a.ts''
     = [\<lparr>source = ''react'', importedNames = [''React''], isDefault = True,
          isDynamic = False, line = 1\<rparr>,
        \<lparr>source = ''./b'', importedNames = [''b''], isDefault = False,
          isDynamic = False, line = 2\<rparr>,
        \<lparr>source = ''./util'', importedNames = [''u''], isDefault = True,
          isDynamic = False, line = 4\<rparr>]
   \<and> length (filter (\<lambda>i. line i = 2) (extractImports demoFiles ''src/a.ts'')) \<le> 1"
proof -
  have a: "extractImports demoFiles ''src/a.ts''
     = [\<lparr>source = ''react'', importedNames = [''React''], isDefault = True,
          isDynamic = False, line = 1\<rparr>,
        \<lparr>source = ''./b'', importedNames = [''b''], isDefault = False,
          isDynamic = False, line = 2\<rparr>,
        \<lparr>source = ''./util'', importedNames = [''u''], isDefault = True,
          isDynamic = False, line = 4\<rparr>]"
    by code_simp
  have b: "length (filter (\<lambda>i. line i = 2) (extractImports demoFiles ''src/a.ts'')) \<le> 1"
    by (rule C10_extractImports_one_per_line
          [of demoFiles "''src/a.ts''", THEN conjunct2, THEN conjunct1, rule_format])
  show ?thesis by (intro conjI a b)
qed

subsection \<open>buildDependencyGraph\<close>

lemma batchLoop_total:
  "0 < mc \<Longrightarrow>
   batchLoop rd ex files mc i nds = Some (foldl (addNode rd ex) nds (drop i files))"
proof (induction "length files - i" arbitrary: i nds rule: less_induct)
  case less
  show ?case
  proof (cases "i < length files")
    case False
    then show ?thesis by (subst batchLoop.simps) simp
  next
    case True
    have m: "length files - (i + mc) < length files - i"
      using True less.prems by simp
    have "batchLoop rd ex files mc i nds
          = batchLoop rd ex files mc (i + mc)
              (foldl (addNode rd ex) nds (slice i (i + mc) files))"
      using True by (subst batchLoop.simps) simp
    also have "\<dots> = Some (foldl (addNode rd ex)
                          (foldl (addNode rd ex) nds (slice i (i + mc) files))
                          (drop (i + mc) files))"
      by (rule less.hyps [OF m less.prems])
    also have "\<dots> = Some (foldl (addNode rd ex) nds
                          (take mc (drop i files) @ drop mc (drop i files)))"
      by (simp add: slice_def add.commute)
    also have "\<dots> = Some (foldl (addNode rd ex) nds (drop i files))"
      by (simp only: append_take_drop_id)
    finally show ?thesis .
  qed
qed

lemma mapSet_entries: "e \<in> set (mapSet k v m) \<Longrightarrow> e = (k, v) \<or> e \<in> set m"
  by (induction m) (auto split: if_splits)

lemma addNode_ok:
  "\<forall>e \<in> set nds. nodeOk rd files e \<Longrightarrow> fp \<in> set files \<Longrightarrow>
   \<forall>e \<in> set (addNode rd ex nds fp). nodeOk rd files e"
  by (auto simp: addNode_def nodeOk_def dest!: mapSet_entries)

lemma foldl_addNode_ok:
  "\<forall>e \<in> set nds. nodeOk rd files e \<Longrightarrow> set fs \<subseteq> set files \<Longrightarrow>
   \<forall>e \<in> set (foldl (addNode rd ex) nds fs). nodeOk rd files e"
proof (induction fs arbitrary: nds)
  case Nil
  then show ?case by simp
next
  case (Cons f fs)
  have "\<forall>e \<in> set (addNode rd ex nds f). nodeOk rd files e"
    using Cons.prems by (intro addNode_ok) auto
  then show ?case using Cons by simp
qed

lemma probe_member: "probe files cand sfxs = Some t \<Longrightarrow> t \<in> set files"
  by (auto simp: probe_def find_Some_iff split: option.splits)

lemma resolveImportPath_member:
  "resolveImportPath P src importer files = Some t \<Longrightarrow> t \<in> set files"
  by (auto simp: resolveImportPath_def Let_def dest: probe_member split: if_splits option.splits)

lemma resolveImportPath_external:
  "isExternal src \<Longrightarrow> resolveImportPath P src importer files = None"
  by (simp add: resolveImportPath_def)

lemma resolveImportPath_internal:
  "resolveImportPath P src importer files = Some t \<Longrightarrow> \<not> isExternal src"
  by (auto simp: resolveImportPath_def split: if_splits)

lemma entryOk_setAdd:
  assumes "entryOk P rd files t ds" and "fp \<in> set files"
    and "imp \<in> set (extractImports rd fp)"
    and "resolveImportPath P (source imp) fp files = Some t"
  shows "entryOk P rd files t (setAdd fp ds)"
proof -
  have "\<not> isExternal (source imp)"
    using assms(4) by (rule resolveImportPath_internal)
  then have "list_ex (\<lambda>imp. \<not> isExternal (source imp)
                 \<and> resolveImportPath P (source imp) fp files = Some t) (extractImports rd fp)"
    using assms(3,4) by (auto simp: list_ex_iff)
  then show ?thesis
    using assms(1,2) by (auto simp: entryOk_def setAdd_def)
qed

lemma entryOk_empty: "t \<in> set files \<Longrightarrow> entryOk P rd files t []"
  by (simp add: entryOk_def)

lemma addDependent_ok:
  assumes rl: "rlOk P rd files rl" and fp: "fp \<in> set files"
    and imp: "imp \<in> set (extractImports rd fp)"
    and res: "resolveImportPath P (source imp) fp files = Some t"
  shows "rlOk P rd files (addDependent t fp rl)"
proof -
  have t: "t \<in> set files" using res by (rule resolveImportPath_member)
  define rl1 where "rl1 = (if map_of rl t = None then mapSet t [] rl else rl)"
  have rl1: "rlOk P rd files rl1"
    using rl t unfolding rl1_def rlOk_def
    by (auto dest!: mapSet_entries simp: entryOk_empty)
  show ?thesis
  proof (cases "map_of rl1 t")
    case None
    then show ?thesis using rl1 by (simp add: addDependent_def rl1_def Let_def)
  next
    case (Some ds)
    then have "(t, ds) \<in> set rl1" by (rule map_of_SomeD)
    then have "entryOk P rd files t ds" using rl1 by (auto simp: rlOk_def)
    then have "entryOk P rd files t (setAdd fp ds)"
      using fp imp res by (rule entryOk_setAdd)
    then have "rlOk P rd files (mapSet t (setAdd fp ds) rl1)"
      using rl1 unfolding rlOk_def by (auto dest!: mapSet_entries)
    then show ?thesis using Some by (simp add: addDependent_def rl1_def Let_def)
  qed
qed

lemma addImport_ok:
  "rlOk P rd files rl \<Longrightarrow> fp \<in> set files \<Longrightarrow> imp \<in> set (extractImports rd fp) \<Longrightarrow>
   rlOk P rd files (addImport P files fp rl imp)"
  by (auto simp: addImport_def intro: addDependent_ok split: option.splits)

lemma foldl_addImport_ok:
  "rlOk P rd files rl \<Longrightarrow> fp \<in> set files \<Longrightarrow> set imps \<subseteq> set (extractImports rd fp) \<Longrightarrow>
   rlOk P rd files (foldl (addImport P files fp) rl imps)"
proof (induction imps arbitrary: rl)
  case Nil
  then show ?case by simp
next
  case (Cons imp imps)
  have "rlOk P rd files (addImport P files fp rl imp)"
    using Cons.prems by (intro addImport_ok) auto
  then show ?case using Cons by simp
qed

lemma foldl_nodes_ok:
  "rlOk P rd files rl \<Longrightarrow> \<forall>e \<in> set nds. nodeOk rd files e \<Longrightarrow>
   rlOk P rd files
     (foldl (\<lambda>rl (filepath, node). foldl (addImport P files filepath) rl (nodeImports node))
        rl nds)"
proof (induction nds arbitrary: rl)
  case Nil
  then show ?case by simp
next
  case (Cons e nds)
  obtain fp node where e: "e = (fp, node)" by (cases e)
  have ok: "fp \<in> set files" "nodeImports node = extractImports rd fp"
    using Cons.prems(2) e by (auto simp: nodeOk_def)
  have "rlOk P rd files (foldl (addImport P files fp) rl (nodeImports node))"
    using Cons.prems(1) ok by (intro foldl_addImport_ok) auto
  then show ?case using Cons e by simp
qed

lemma buildReverseLookup_ok:
  "\<forall>e \<in> set nds. nodeOk rd files e \<Longrightarrow> rlOk P rd files (buildReverseLookup P files nds)"
  unfolding buildReverseLookup_def by (rule foldl_nodes_ok) (simp_all add: rlOk_def)

lemma set_slice: "set (slice i j xs) \<subseteq> set xs"
proof -
  have "set (take (j - i) (drop i xs)) \<subseteq> set (drop i xs)" by (rule set_take_subset)
  also have "\<dots> \<subseteq> set xs" by (rule set_drop_subset)
  finally show ?thesis by (simp add: slice_def)
qed

lemma batchLoop_ok:
  assumes "batchLoop rd ex files mc i nds = Some r"
  shows "(\<forall>e \<in> set nds. nodeOk rd files e) \<longrightarrow> (\<forall>e \<in> set r. nodeOk rd files e)"
proof (rule batchLoop.raw_induct
    [where P = "\<lambda>rd ex files mc i nds r.
        (\<forall>e \<in> set nds. nodeOk rd files e) \<longrightarrow> (\<forall>e \<in> set r. nodeOk rd files e)",
     OF _ assms])
  fix bl :: "fileSystem \<Rightarrow> (string \<Rightarrow> string list) \<Rightarrow> string list \<Rightarrow> nat \<Rightarrow> nat
      \<Rightarrow> (string \<times> FileNode) list \<Rightarrow> (string \<times> FileNode) list option"
    and rd ex files mc i nds r
  assume ih: "\<And>rd ex files mc i nds r. bl rd ex files mc i nds = Some r \<Longrightarrow>
      (\<forall>e \<in> set nds. nodeOk rd files e) \<longrightarrow> (\<forall>e \<in> set r. nodeOk rd files e)"
    and body: "(if i < length files
      then bl rd ex files mc (i + mc)
             (foldl (addNode rd ex) nds (slice i (i + mc) files))
      else Some nds) = Some r"
  show "(\<forall>e \<in> set nds. nodeOk rd files e) \<longrightarrow> (\<forall>e \<in> set r. nodeOk rd files e)"
  proof
    assume ok: "\<forall>e \<in> set nds. nodeOk rd files e"
    show "\<forall>e \<in> set r. nodeOk rd files e"
    proof (cases "i < length files")
      case False
      then show ?thesis using body ok by simp
    next
      case True
      then have rec: "bl rd ex files mc (i + mc)
             (foldl (addNode rd ex) nds (slice i (i + mc) files)) = Some r"
        using body by simp
      have "\<forall>e \<in> set (foldl (addNode rd ex) nds (slice i (i + mc) files)). nodeOk rd files e"
        using ok set_slice by (rule foldl_addNode_ok)
      then show ?thesis using ih [OF rec] by simp
    qed
  qed
qed

lemma buildDependencyGraph_ok:
  assumes "buildDependencyGraph P rd ex files mc = Some g"
  shows "rlOk P rd files (reverseLookup g)"
proof -
  from assms obtain nm where
    nm: "batchLoop rd ex files mc 0 [] = Some nm"
    and g: "reverseLookup g = buildReverseLookup P files nm"
    by (auto simp: buildDependencyGraph_def Let_def split: option.splits)
  have "\<forall>e \<in> set nm. nodeOk rd files e"
    using batchLoop_ok [OF nm] by simp
  then show ?thesis
    unfolding g by (rule buildReverseLookup_ok)
qed

lemma buildDependencyGraph_returns:
  "0 < mc \<Longrightarrow> \<exists>g. buildDependencyGraph P rd ex files mc = Some g"
  by (simp add: buildDependencyGraph_def batchLoop_total Let_def)

text \<open>
  Claim C8: \<open>resolveImportPath\<close> resolves no bare package specifier (one that starts
  neither with \<open>.\<close> nor with \<open>@/\<close>); \<open>buildDependencyGraph\<close> returns for every positive batch
  size; and in the graph it returns every key of the reverse lookup is a file of the
  scanned list, and every member of a key's set is a file of the scanned list that has an
  import, not a bare specifier, which resolves to that key.
\<close>

theorem C8_reverse_lookup_invariant:
  "(isExternal importSource \<longrightarrow>
      resolveImportPath P importSource importerPath files = None)
   \<and> (0 < maxConcurrency \<longrightarrow>
      (\<exists>g. buildDependencyGraph P readFile extractExports files maxConcurrency = Some g))
   \<and> (buildDependencyGraph P readFile extractExports files maxConcurrency = Some g \<longrightarrow>
      (\<forall>(target, importers) \<in> set (reverseLookup g).
         target \<in> set files
         \<and> (\<forall>importer \<in> set importers.
               importer \<in> set files
               \<and> (\<exists>imp \<in> set (extractImports readFile importer).
                     \<not> isExternal (source imp)
                     \<and> resolveImportPath P (source imp) importer files = Some target))))"
proof (intro conjI impI)
  assume "isExternal importSource"
  then show "resolveImportPath P importSource importerPath files = None"
    by (rule resolveImportPath_external)
next
  assume "0 < maxConcurrency"
  then show "\<exists>g. buildDependencyGraph P readFile extractExports files maxConcurrency = Some g"
    by (rule buildDependencyGraph_returns)
next
  assume "buildDependencyGraph P readFile extractExports files maxConcurrency = Some g"
  then have "rlOk P readFile files (reverseLookup g)"
    by (rule buildDependencyGraph_ok)
  then show "\<forall>(target, importers) \<in> set (reverseLookup g).
         target \<in> set files
         \<and> (\<forall>importer \<in> set importers.
               importer \<in> set files
               \<and> (\<exists>imp \<in> set (extractImports readFile importer).
                     \<not> isExternal (source imp)
                     \<and> resolveImportPath P (source imp) importer files = Some target))"
    by (simp add: rlOk_def entryOk_def list_all_iff list_ex_iff case_prod_beta)
qed

theorem C8_reverse_lookup_invariant_witness:
  "isExternal ''react''
   \<and> resolveImportPath posix ''react'' ''src/a.ts'' demoPaths = None
   \<and> (\<exists>g. buildDependencyGraph posix demoFiles noExports demoPaths 50 = Some g)
   \<and> map_option reverseLookup (buildDependencyGraph posix demoFiles noExports demoPaths 50)
       = Some [(''src/b.ts'', [''src/a.ts'']),
               (''src/util/index.ts'', [''src/a.ts'', ''src/b.ts'']),
               (''src/a.ts'', [''src/c.ts''])]"
proof -
  have a: "isExternal ''react''" by code_simp
  have b: "resolveImportPath posix ''react'' ''src/a.ts'' demoPaths = None"
    by (rule C8_reverse_lookup_invariant [THEN conjunct1, rule_format, OF a])
  have c: "\<exists>g. buildDependencyGraph posix demoFiles noExports demoPaths 50 = Some g"
    by (rule C8_reverse_lookup_invariant [THEN conjunct2, THEN conjunct1, rule_format]) simp
  have d: "map_option reverseLookup
             (buildDependencyGraph posix demoFiles noExports demoPaths 50)
           = Some [(''src/b.ts'', [''src/a.ts'']),
                   (''src/util/index.ts'', [''src/a.ts'', ''src/b.ts'']),
                   (''src/a.ts'', [''src/c.ts''])]"
    by code_simp
  show ?thesis by (intro conjI a b c d)
qed

subsection \<open>calculateImportRanks\<close>

lemma mapSet_fresh: "k \<notin> fst ` set m \<Longrightarrow> mapSet k v m = m @ [(k, v)]"
  by (induction m) auto

lemma foldl_mapSet_distinct:
  "distinct (map fst xs) \<Longrightarrow> fst ` set acc \<inter> fst ` set xs = {} \<Longrightarrow>
   foldl (\<lambda>ranks (k, c). mapSet k (h c) ranks) acc xs = acc @ map (\<lambda>(k, c). (k, h c)) xs"
proof (induction xs arbitrary: acc)
  case Nil
  then show ?case by simp
next
  case (Cons x xs)
  obtain k c where x: "x = (k, c)" by (cases x)
  have fresh: "k \<notin> fst ` set acc" using Cons.prems(2) x by auto
  have d: "distinct (map fst xs)" using Cons.prems(1) by simp
  have disj: "fst ` set (acc @ [(k, h c)]) \<inter> fst ` set xs = {}"
    using Cons.prems x by auto
  show ?case
    using Cons.IH [OF d disj] x by (simp add: mapSet_fresh [OF fresh])
qed

lemma map_of_mapped:
  "map_of (map (\<lambda>(k, v). (k, h v)) xs) k = map_option h (map_of xs k)"
  by (induction xs) auto

lemma calculateImportRanks_map:
  assumes "distinct (map fst (reverseLookup g))"
  shows "calculateImportRanks g =
     map (\<lambda>(k, deps). (k, normalizedRank (length deps)
                           (Max (set (map (\<lambda>(k, deps). length deps) (reverseLookup g))))))
       (reverseLookup g)"
proof (cases "reverseLookup g = []")
  case True
  then show ?thesis by (simp add: calculateImportRanks_def)
next
  case False
  let ?dc = "map (\<lambda>(filepath, deps). (filepath, length deps)) (reverseLookup g)"
  let ?M = "Max (set (map snd ?dc))"
  have fsts: "map fst ?dc = map fst (reverseLookup g)"
    by (simp add: comp_def case_prod_beta)
  have snds: "map snd ?dc = map (\<lambda>(k, deps). length deps) (reverseLookup g)"
    by (simp add: comp_def case_prod_beta)
  have "foldl (\<lambda>ranks (k, c). mapSet k (normalizedRank c ?M) ranks) [] ?dc
        = [] @ map (\<lambda>(k, c). (k, normalizedRank c ?M)) ?dc"
  proof (rule foldl_mapSet_distinct)
    show "distinct (map fst ?dc)" unfolding fsts by (rule assms)
  qed simp
  then show ?thesis
    using False by (simp add: calculateImportRanks_def Let_def snds comp_def case_prod_beta)
qed

lemma normalizedRank_max: "0 < m \<Longrightarrow> normalizedRank m m = Number 100"
proof -
  assume "0 < m"
  then have q: "(of_nat m :: rat) / of_nat m = 1" by simp
  have a: "toDouble 1 = 1" by code_simp
  have b: "toDouble 100 = 100" by code_simp
  have c: "mathRound 100 = 100" by code_simp
  show ?thesis using \<open>0 < m\<close> by (simp add: normalizedRank_def q a b c)
qed

text \<open>
  Claim C9, as stated: every key of the reverse lookup gets the rank
  \<open>round(100 \<times> count \<div> max)\<close>.  The source computes \<open>Math.round((count / max) * 100)\<close> on
  doubles: the quotient is rounded before it is multiplied.  With 23 dependents of a maximum
  of 40 the exact value is 57.5, which rounds to 58; the quotient 0.575 is no double, the
  product of the nearest double with 100 lies below 57.5, and the rank is 57.
\<close>

theorem C9_rank_23_of_40:
  "calculateImportRanks (rankGraph [(''B'', manyFiles 23), (''A'', manyFiles 40)])
     = [(''B'', Number 57), (''A'', Number 100)]
   \<and> mathRound (100 * 23 / 40) = 58"
  by code_simp

text \<open>
  Claim C9, amended: for every dependency graph (a reverse lookup with distinct keys),
  \<open>calculateImportRanks\<close> maps each key of the reverse lookup to
  \<open>Math.round((count / max) * 100)\<close> evaluated on doubles, \<open>count\<close> being the size of the
  key's set and \<open>max\<close> the largest size; a file that is no key is absent from the result,
  and an empty reverse lookup gives the empty map.  A key of the largest size has rank 100;
  with A imported by 3 files and B by 1, A has rank 100 and B rank 33.
\<close>

theorem C9_import_ranks:
  "(distinct (map fst (reverseLookup g)) \<longrightarrow>
      map_of (calculateImportRanks g) k =
        (case map_of (reverseLookup g) k of
           None \<Rightarrow> None
         | Some deps \<Rightarrow>
             Some (normalizedRank (length deps)
                     (Max (set (map (\<lambda>(k, deps). length deps) (reverseLookup g)))))))
   \<and> (reverseLookup g = [] \<longrightarrow> calculateImportRanks g = [])
   \<and> (0 < m \<longrightarrow> normalizedRank m m = Number 100)
   \<and> normalizedRank 3 3 = Number 100 \<and> normalizedRank 1 3 = Number 33"
proof (intro conjI impI)
  assume d: "distinct (map fst (reverseLookup g))"
  show "map_of (calculateImportRanks g) k =
        (case map_of (reverseLookup g) k of
           None \<Rightarrow> None
         | Some deps \<Rightarrow>
             Some (normalizedRank (length deps)
                     (Max (set (map (\<lambda>(k, deps). length deps) (reverseLookup g))))))"
    unfolding calculateImportRanks_map [OF d] map_of_mapped
    by (cases "map_of (reverseLookup g) k") simp_all
next
  assume "reverseLookup g = []"
  then show "calculateImportRanks g = []" by (simp add: calculateImportRanks_def)
next
  assume "0 < m"
  then show "normalizedRank m m = Number 100" by (rule normalizedRank_max)
next
  show "normalizedRank 3 3 = Number 100" by code_simp
next
  show "normalizedRank 1 3 = Number 33" by code_simp
qed

theorem C9_import_ranks_witness:
  "distinct (map fst (reverseLookup (rankGraph [(''B'', [''x'']), (''A'', [''x'', ''y'', ''z''])])))
   \<and> map_of (calculateImportRanks (rankGraph [(''B'', [''x'']), (''A'', [''x'', ''y'', ''z''])])) ''B''
       = Some (Number 33)
   \<and> map_of (calculateImportRanks (rankGraph [(''B'', [''x'']), (''A'', [''x'', ''y'', ''z''])])) ''A''
       = Some (Number 100)
   \<and> map_of (calculateImportRanks (rankGraph [(''B'', [''x'']), (''A'', [''x'', ''y'', ''z''])])) ''C''
       = None"
proof -
  let ?g = "rankGraph [(''B'', [''x'']), (''A'', [''x'', ''y'', ''z''])]"
  have d: "distinct (map fst (reverseLookup ?g))" by code_simp
  note r = C9_import_ranks [of ?g, THEN conjunct1, rule_format, OF d]
  have b: "(case map_of (reverseLookup ?g) ''B'' of
              None \<Rightarrow> None
            | Some deps \<Rightarrow>
                Some (normalizedRank (length deps)
                        (Max (set (map (\<lambda>(k, deps). length deps) (reverseLookup ?g))))))
           = Some (Number 33)"
    by code_simp
  have a: "(case map_of (reverseLookup ?g) ''A'' of
              None \<Rightarrow> None
            | Some deps \<Rightarrow>
                Some (normalizedRank (length deps)
                        (Max (set (map (\<lambda>(k, deps). length deps) (reverseLookup ?g))))))
           = Some (Number 100)"
    by code_simp
  have c: "(case map_of (reverseLookup ?g) ''C'' of
              None \<Rightarrow> None
            | Some deps \<Rightarrow>
                Some (normalizedRank (length deps)
                        (Max (set (map (\<lambda>(k, deps). length deps) (reverseLookup ?g))))))
           = None"
    by code_simp
  show ?thesis
    by (intro conjI d) (simp_all only: r a b c)
qed

end
